theory Spec2Isabelle
  imports Complex_Main "HOL-Library.Multiset" "HOL-Library.Char_ord" "HOL-Library.List_Lexorder"
    "HOL-Library.AList"
begin

section \<open>Music analytics platform: event schema, validation, feature derivation, aggregation\<close>

text \<open>
  The development embeds \<^verbatim>\<open>src/models/music_events.py\<close> (the pydantic 1.10 models),
  \<^verbatim>\<open>src/pipeline/music_pipeline.py\<close> (parsing, enrichment, window aggregation) and the
  platform grouping of \<^verbatim>\<open>src/pipeline/dataflow_pipeline.py\<close>.

  Conventions of the embedding:
  \<^item> Python \<^verbatim>\<open>int\<close> is \<open>int\<close>; Python \<^verbatim>\<open>float\<close> is \<open>real\<close>, with exact arithmetic in the
    feature derivation and binary64 rounding in the sum and the mean of the aggregation;
    \<^verbatim>\<open>str\<close> is \<open>string\<close>, read as a sequence of code points below 256.
  \<^item> Every exception of the source is a value: validation returns \<open>verror list + 'a\<close>
    (the error list of pydantic's \<^verbatim>\<open>ValidationError\<close>), the enrichment functions return
    \<open>py_error + 'a\<close>.
  \<^item> The readings of \<^verbatim>\<open>uuid4()\<close> and \<^verbatim>\<open>datetime.utcnow()\<close> are explicit arguments.
\<close>

subsection \<open>Enumerations\<close>

datatype EventType = PLAY | SKIP | LIKE | SHARE | PLAYLIST_ADD | DOWNLOAD | SEARCH

fun EventType_value :: "EventType \<Rightarrow> string" where
  "EventType_value PLAY = ''play''"
| "EventType_value SKIP = ''skip''"
| "EventType_value LIKE = ''like''"
| "EventType_value SHARE = ''share''"
| "EventType_value PLAYLIST_ADD = ''playlist_add''"
| "EventType_value DOWNLOAD = ''download''"
| "EventType_value SEARCH = ''search''"

datatype Platform = SPOTIFY | APPLE_MUSIC | YOUTUBE_MUSIC | AMAZON_MUSIC | TIDAL | SOUNDCLOUD | PANDORA

fun Platform_value :: "Platform \<Rightarrow> string" where
  "Platform_value SPOTIFY = ''spotify''"
| "Platform_value APPLE_MUSIC = ''apple_music''"
| "Platform_value YOUTUBE_MUSIC = ''youtube_music''"
| "Platform_value AMAZON_MUSIC = ''amazon_music''"
| "Platform_value TIDAL = ''tidal''"
| "Platform_value SOUNDCLOUD = ''soundcloud''"
| "Platform_value PANDORA = ''pandora''"

datatype Genre = POP | ROCK | HIP_HOP | ELECTRONIC | JAZZ | CLASSICAL | COUNTRY | R_AND_B
  | INDIE | ALTERNATIVE | FOLK | REGGAE | BLUES | METAL | PUNK | OTHER

fun Genre_value :: "Genre \<Rightarrow> string" where
  "Genre_value POP = ''pop''"
| "Genre_value ROCK = ''rock''"
| "Genre_value HIP_HOP = ''hip_hop''"
| "Genre_value ELECTRONIC = ''electronic''"
| "Genre_value JAZZ = ''jazz''"
| "Genre_value CLASSICAL = ''classical''"
| "Genre_value COUNTRY = ''country''"
| "Genre_value R_AND_B = ''r_and_b''"
| "Genre_value INDIE = ''indie''"
| "Genre_value ALTERNATIVE = ''alternative''"
| "Genre_value FOLK = ''folk''"
| "Genre_value REGGAE = ''reggae''"
| "Genre_value BLUES = ''blues''"
| "Genre_value METAL = ''metal''"
| "Genre_value PUNK = ''punk''"
| "Genre_value OTHER = ''other''"

text \<open>The members of each enumeration in declaration order, and the lookup
  \<^verbatim>\<open>Enum(value)\<close> by value (no member: \<^verbatim>\<open>ValueError\<close>, here \<open>None\<close>).\<close>

definition EventType_members :: "EventType list" where
  "EventType_members = [PLAY, SKIP, LIKE, SHARE, PLAYLIST_ADD, DOWNLOAD, SEARCH]"

definition Platform_members :: "Platform list" where
  "Platform_members = [SPOTIFY, APPLE_MUSIC, YOUTUBE_MUSIC, AMAZON_MUSIC, TIDAL, SOUNDCLOUD, PANDORA]"

definition Genre_members :: "Genre list" where
  "Genre_members = [POP, ROCK, HIP_HOP, ELECTRONIC, JAZZ, CLASSICAL, COUNTRY, R_AND_B,
     INDIE, ALTERNATIVE, FOLK, REGGAE, BLUES, METAL, PUNK, OTHER]"

definition EventType_of :: "string \<Rightarrow> EventType option" where
  "EventType_of s = find (\<lambda>m. EventType_value m = s) EventType_members"

definition Platform_of :: "string \<Rightarrow> Platform option" where
  "Platform_of s = find (\<lambda>m. Platform_value m = s) Platform_members"

definition Genre_of :: "string \<Rightarrow> Genre option" where
  "Genre_of s = find (\<lambda>m. Genre_value m = s) Genre_members"

subsection \<open>Validation errors and raw input\<close>

text \<open>
  A raw record is the decoded key/value structure handed to a model constructor. Each key
  is seen through pydantic's type validator for the annotated type: \<open>Absent\<close> is a missing
  key (or \<^verbatim>\<open>null\<close> on an \<^verbatim>\<open>Optional\<close> field), \<open>Value v\<close> a present value that the type
  validator reads as \<open>v\<close>, \<open>Mistyped\<close> a present value that the type validator rejects
  (also \<^verbatim>\<open>null\<close> on a field that is not \<^verbatim>\<open>Optional\<close>). A field of an enumeration type is
  given by its token, a string that the enumeration may or may not know; a nested model is
  given by its own raw record.
\<close>

datatype 'a raw = Absent | Value 'a | Mistyped

datatype loc_item = Key string | Index nat

datatype reason =
    MissingError
  | WrongTypeError
  | AnyStrMinLengthError nat
  | AnyStrMaxLengthError nat
  | NumberNotGeError real
  | NumberNotLeError real
  | EnumMemberError
  | ValueError string

type_synonym verror = "loc_item list \<times> reason"

text \<open>One field of a model: required (\<^verbatim>\<open>Field(...)\<close>), optional (\<^verbatim>\<open>Field(None)\<close>), or with a
  default. The function \<open>f\<close> is the chain of validators after the type validator; the first
  one that raises gives the field's single error.\<close>

definition required :: "string \<Rightarrow> 'a raw \<Rightarrow> ('a \<Rightarrow> reason + 'b) \<Rightarrow> verror list + 'b" where
  "required k r f = (case r of
       Absent \<Rightarrow> Inl [([Key k], MissingError)]
     | Mistyped \<Rightarrow> Inl [([Key k], WrongTypeError)]
     | Value v \<Rightarrow> (case f v of Inl e \<Rightarrow> Inl [([Key k], e)] | Inr x \<Rightarrow> Inr x))"

definition optional :: "string \<Rightarrow> 'a raw \<Rightarrow> ('a \<Rightarrow> reason + 'b) \<Rightarrow> verror list + 'b option" where
  "optional k r f = (case r of
       Absent \<Rightarrow> Inr None
     | Mistyped \<Rightarrow> Inl [([Key k], WrongTypeError)]
     | Value v \<Rightarrow> (case f v of Inl e \<Rightarrow> Inl [([Key k], e)] | Inr x \<Rightarrow> Inr (Some x)))"

definition defaulted :: "string \<Rightarrow> 'a raw \<Rightarrow> 'b \<Rightarrow> ('a \<Rightarrow> reason + 'b) \<Rightarrow> verror list + 'b" where
  "defaulted k r d f = (case r of
       Absent \<Rightarrow> Inr d
     | Mistyped \<Rightarrow> Inl [([Key k], WrongTypeError)]
     | Value v \<Rightarrow> (case f v of Inl e \<Rightarrow> Inl [([Key k], e)] | Inr x \<Rightarrow> Inr x))"

definition errors_of :: "verror list + 'a \<Rightarrow> verror list" where
  "errors_of x = (case x of Inl es \<Rightarrow> es | Inr _ \<Rightarrow> [])"

definition value_of :: "verror list + 'a \<Rightarrow> 'a option" where
  "value_of x = (case x of Inl _ \<Rightarrow> None | Inr v \<Rightarrow> Some v)"

definition under :: "string \<Rightarrow> verror list \<Rightarrow> verror list" where
  "under k es = map (\<lambda>(l, e). (Key k # l, e)) es"

text \<open>Sequencing of validators on one field.\<close>

definition and_then :: "'e + 'a \<Rightarrow> ('a \<Rightarrow> 'e + 'b) \<Rightarrow> 'e + 'b" where
  "and_then x f = (case x of Inl e \<Rightarrow> Inl e | Inr v \<Rightarrow> f v)"

text \<open>The constraints of \<^verbatim>\<open>Field\<close>: \<^verbatim>\<open>min_length\<close>, \<^verbatim>\<open>max_length\<close>, \<^verbatim>\<open>ge\<close>, \<^verbatim>\<open>le\<close>.\<close>

definition accept :: "'a \<Rightarrow> reason + 'a" where
  "accept v = Inr v"

definition min_length :: "nat \<Rightarrow> string \<Rightarrow> reason + string" where
  "min_length n v = (if length v < n then Inl (AnyStrMinLengthError n) else Inr v)"

definition max_length :: "nat \<Rightarrow> string \<Rightarrow> reason + string" where
  "max_length n v = (if length v > n then Inl (AnyStrMaxLengthError n) else Inr v)"

definition ge_int :: "int \<Rightarrow> int \<Rightarrow> reason + int" where
  "ge_int b v = (if v \<ge> b then Inr v else Inl (NumberNotGeError (real_of_int b)))"

definition le_int :: "int \<Rightarrow> int \<Rightarrow> reason + int" where
  "le_int b v = (if v \<le> b then Inr v else Inl (NumberNotLeError (real_of_int b)))"

definition ge_float :: "real \<Rightarrow> real \<Rightarrow> reason + real" where
  "ge_float b v = (if v \<ge> b then Inr v else Inl (NumberNotGeError b))"

definition le_float :: "real \<Rightarrow> real \<Rightarrow> reason + real" where
  "le_float b v = (if v \<le> b then Inr v else Inl (NumberNotLeError b))"

text \<open>\<^verbatim>\<open>List[Genre]\<close>: every item is looked up in the enumeration; each failing item gives
  an error at its index.\<close>

fun genre_items :: "nat \<Rightarrow> string list \<Rightarrow> verror list \<times> Genre list" where
  "genre_items i [] = ([], [])"
| "genre_items i (t # ts) =
     (let (es, gs) = genre_items (Suc i) ts
      in case Genre_of t of
           None \<Rightarrow> (([Index i], EnumMemberError) # es, gs)
         | Some g \<Rightarrow> (es, g # gs))"

definition genre_list :: "string \<Rightarrow> string list raw \<Rightarrow> verror list + Genre list" where
  "genre_list k r = (case r of
       Absent \<Rightarrow> Inr []
     | Mistyped \<Rightarrow> Inl [([Key k], WrongTypeError)]
     | Value ts \<Rightarrow> (case genre_items 0 ts of (es, gs) \<Rightarrow> if es = [] then Inr gs else Inl (under k es)))"

subsection \<open>\<^verbatim>\<open>str.strip()\<close>\<close>

definition isspace :: "char \<Rightarrow> bool" where
  "isspace c = (of_char c \<in> set [9, 10, 11, 12, 13, 28, 29, 30, 31, 32, 133, 160 :: nat])"

definition strip :: "string \<Rightarrow> string" where
  "strip s = rev (dropWhile isspace (rev (dropWhile isspace s)))"

subsection \<open>\<^verbatim>\<open>datetime\<close>\<close>

text \<open>A \<^verbatim>\<open>datetime\<close> value by its components; \<open>utcoffset\<close> is \<open>None\<close> for a naive value
  and the offset in minutes for an aware one.\<close>

record datetime =
  year :: int
  month :: int
  day :: int
  hour :: int
  minute :: int
  second :: int
  microsecond :: int
  utcoffset :: "int option"

subsection \<open>Artist, Album, Track\<close>

record raw_Artist =
  id :: "string raw"
  name :: "string raw"
  genres :: "string list raw"
  followers :: "int raw"
  verified :: "bool raw"
  country :: "string raw"

record Artist =
  id :: string
  name :: string
  genres :: "Genre list"
  followers :: "int option"
  verified :: bool
  country :: "string option"

definition Artist_validate_name :: "string \<Rightarrow> reason + string" where
  "Artist_validate_name v =
     (if strip v = [] then Inl (ValueError ''Artist name cannot be empty'') else Inr (strip v))"

definition Artist_validate :: "raw_Artist \<Rightarrow> verror list + Artist" where
  "Artist_validate r =
    (let f_id = required ''id'' (raw_Artist.id r) accept;
         f_name = required ''name'' (raw_Artist.name r)
            (\<lambda>v. and_then (and_then (min_length 1 v) (max_length 200)) Artist_validate_name);
         f_genres = genre_list ''genres'' (raw_Artist.genres r);
         f_followers = optional ''followers'' (raw_Artist.followers r) (ge_int 0);
         f_verified = defaulted ''verified'' (raw_Artist.verified r) False accept;
         f_country = optional ''country'' (raw_Artist.country r) (max_length 2);
         errors = errors_of f_id @ errors_of f_name @ errors_of f_genres @ errors_of f_followers
                  @ errors_of f_verified @ errors_of f_country
     in if errors = []
        then Inr \<lparr> Artist.id = projr f_id, name = projr f_name, genres = projr f_genres,
                   followers = projr f_followers, verified = projr f_verified,
                   country = projr f_country \<rparr>
        else Inl errors)"

record raw_Album =
  id :: "string raw"
  name :: "string raw"
  artist_id :: "string raw"
  release_date :: "datetime raw"
  track_count :: "int raw"
  genres :: "string list raw"

record Album =
  id :: string
  name :: string
  artist_id :: string
  release_date :: "datetime option"
  track_count :: "int option"
  genres :: "Genre list"

definition Album_validate_name :: "string \<Rightarrow> reason + string" where
  "Album_validate_name v =
     (if strip v = [] then Inl (ValueError ''Album name cannot be empty'') else Inr (strip v))"

definition Album_validate :: "raw_Album \<Rightarrow> verror list + Album" where
  "Album_validate r =
    (let f_id = required ''id'' (raw_Album.id r) accept;
         f_name = required ''name'' (raw_Album.name r)
            (\<lambda>v. and_then (and_then (min_length 1 v) (max_length 300)) Album_validate_name);
         f_artist_id = required ''artist_id'' (raw_Album.artist_id r) accept;
         f_release_date = optional ''release_date'' (raw_Album.release_date r) accept;
         f_track_count = optional ''track_count'' (raw_Album.track_count r) (ge_int 1);
         f_genres = genre_list ''genres'' (raw_Album.genres r);
         errors = errors_of f_id @ errors_of f_name @ errors_of f_artist_id
                  @ errors_of f_release_date @ errors_of f_track_count @ errors_of f_genres
     in if errors = []
        then Inr \<lparr> Album.id = projr f_id, name = projr f_name, artist_id = projr f_artist_id,
                   release_date = projr f_release_date, track_count = projr f_track_count,
                   genres = projr f_genres \<rparr>
        else Inl errors)"

record raw_Track =
  id :: "string raw"
  name :: "string raw"
  artist_id :: "string raw"
  album_id :: "string raw"
  duration_ms :: "int raw"
  explicit :: "bool raw"
  popularity :: "int raw"
  energy :: "real raw"
  valence :: "real raw"
  tempo :: "real raw"
  genres :: "string list raw"

record Track =
  id :: string
  name :: string
  artist_id :: string
  album_id :: "string option"
  duration_ms :: "int option"
  explicit :: bool
  popularity :: "int option"
  energy :: "real option"
  valence :: "real option"
  tempo :: "real option"
  genres :: "Genre list"

definition Track_validate_name :: "string \<Rightarrow> reason + string" where
  "Track_validate_name v =
     (if strip v = [] then Inl (ValueError ''Track name cannot be empty'') else Inr (strip v))"

definition Track_validate :: "raw_Track \<Rightarrow> verror list + Track" where
  "Track_validate r =
    (let f_id = required ''id'' (raw_Track.id r) accept;
         f_name = required ''name'' (raw_Track.name r)
            (\<lambda>v. and_then (and_then (min_length 1 v) (max_length 300)) Track_validate_name);
         f_artist_id = required ''artist_id'' (raw_Track.artist_id r) accept;
         f_album_id = optional ''album_id'' (raw_Track.album_id r) accept;
         f_duration_ms = optional ''duration_ms'' (raw_Track.duration_ms r) (ge_int 0);
         f_explicit = defaulted ''explicit'' (raw_Track.explicit r) False accept;
         f_popularity = optional ''popularity'' (raw_Track.popularity r)
            (\<lambda>v. and_then (ge_int 0 v) (le_int 100));
         f_energy = optional ''energy'' (raw_Track.energy r)
            (\<lambda>v. and_then (ge_float 0 v) (le_float 1));
         f_valence = optional ''valence'' (raw_Track.valence r)
            (\<lambda>v. and_then (ge_float 0 v) (le_float 1));
         f_tempo = optional ''tempo'' (raw_Track.tempo r) (ge_float 0);
         f_genres = genre_list ''genres'' (raw_Track.genres r);
         errors = errors_of f_id @ errors_of f_name @ errors_of f_artist_id @ errors_of f_album_id
                  @ errors_of f_duration_ms @ errors_of f_explicit @ errors_of f_popularity
                  @ errors_of f_energy @ errors_of f_valence @ errors_of f_tempo
                  @ errors_of f_genres
     in if errors = []
        then Inr \<lparr> Track.id = projr f_id, name = projr f_name, artist_id = projr f_artist_id,
                   album_id = projr f_album_id, duration_ms = projr f_duration_ms,
                   explicit = projr f_explicit, popularity = projr f_popularity,
                   energy = projr f_energy, valence = projr f_valence, tempo = projr f_tempo,
                   genres = projr f_genres \<rparr>
        else Inl errors)"

subsection \<open>UserInteraction, PlayEvent, StreamingEvent\<close>

record raw_UserInteraction =
  user_id :: "string raw"
  session_id :: "string raw"
  device_type :: "string raw"
  location :: "string raw"
  subscription_type :: "string raw"
  user_age_group :: "string raw"

record UserInteraction =
  user_id :: string
  session_id :: string
  device_type :: "string option"
  location :: "string option"
  subscription_type :: "string option"
  user_age_group :: "string option"

definition UserInteraction_validate :: "raw_UserInteraction \<Rightarrow> verror list + UserInteraction" where
  "UserInteraction_validate r =
    (let f_user_id = required ''user_id'' (raw_UserInteraction.user_id r) accept;
         f_session_id = required ''session_id'' (raw_UserInteraction.session_id r) accept;
         f_device_type = optional ''device_type'' (raw_UserInteraction.device_type r) accept;
         f_location = optional ''location'' (raw_UserInteraction.location r) (max_length 2);
         f_subscription_type =
            optional ''subscription_type'' (raw_UserInteraction.subscription_type r) accept;
         f_user_age_group = optional ''user_age_group'' (raw_UserInteraction.user_age_group r) accept;
         errors = errors_of f_user_id @ errors_of f_session_id @ errors_of f_device_type
                  @ errors_of f_location @ errors_of f_subscription_type
                  @ errors_of f_user_age_group
     in if errors = []
        then Inr \<lparr> UserInteraction.user_id = projr f_user_id, session_id = projr f_session_id,
                   device_type = projr f_device_type, location = projr f_location,
                   subscription_type = projr f_subscription_type,
                   user_age_group = projr f_user_age_group \<rparr>
        else Inl errors)"

record raw_PlayEvent =
  played_duration_ms :: "int raw"
  skip_reason :: "string raw"
  playlist_id :: "string raw"
  shuffle_mode :: "bool raw"
  repeat_mode :: "string raw"

record PlayEvent =
  played_duration_ms :: int
  skip_reason :: "string option"
  playlist_id :: "string option"
  shuffle_mode :: bool
  repeat_mode :: string

definition validate_repeat_mode :: "string \<Rightarrow> reason + string" where
  "validate_repeat_mode v =
     (let valid_modes = [''off'', ''track'', ''context'']
      in if v \<notin> set valid_modes
         then Inl (ValueError ''Repeat mode must be one of ['off', 'track', 'context']'')
         else Inr v)"

definition PlayEvent_validate :: "raw_PlayEvent \<Rightarrow> verror list + PlayEvent" where
  "PlayEvent_validate r =
    (let f_played_duration_ms =
            required ''played_duration_ms'' (raw_PlayEvent.played_duration_ms r) (ge_int 0);
         f_skip_reason = optional ''skip_reason'' (raw_PlayEvent.skip_reason r) accept;
         f_playlist_id = optional ''playlist_id'' (raw_PlayEvent.playlist_id r) accept;
         f_shuffle_mode = defaulted ''shuffle_mode'' (raw_PlayEvent.shuffle_mode r) False accept;
         f_repeat_mode =
            defaulted ''repeat_mode'' (raw_PlayEvent.repeat_mode r) ''off'' validate_repeat_mode;
         errors = errors_of f_played_duration_ms @ errors_of f_skip_reason
                  @ errors_of f_playlist_id @ errors_of f_shuffle_mode @ errors_of f_repeat_mode
     in if errors = []
        then Inr \<lparr> PlayEvent.played_duration_ms = projr f_played_duration_ms,
                   skip_reason = projr f_skip_reason, playlist_id = projr f_playlist_id,
                   shuffle_mode = projr f_shuffle_mode, repeat_mode = projr f_repeat_mode \<rparr>
        else Inl errors)"

record raw_StreamingEvent =
  platform :: "string raw"
  stream_quality :: "string raw"
  bandwidth_kbps :: "int raw"
  buffer_events :: "int raw"

record StreamingEvent =
  platform :: Platform
  stream_quality :: "string option"
  bandwidth_kbps :: "int option"
  buffer_events :: "int option"

definition enum_member :: "(string \<Rightarrow> 'e option) \<Rightarrow> string \<Rightarrow> reason + 'e" where
  "enum_member lookup v = (case lookup v of None \<Rightarrow> Inl EnumMemberError | Some m \<Rightarrow> Inr m)"

definition StreamingEvent_validate :: "raw_StreamingEvent \<Rightarrow> verror list + StreamingEvent" where
  "StreamingEvent_validate r =
    (let f_platform = required ''platform'' (raw_StreamingEvent.platform r) (enum_member Platform_of);
         f_stream_quality = optional ''stream_quality'' (raw_StreamingEvent.stream_quality r) accept;
         f_bandwidth_kbps =
            optional ''bandwidth_kbps'' (raw_StreamingEvent.bandwidth_kbps r) (ge_int 0);
         f_buffer_events = optional ''buffer_events'' (raw_StreamingEvent.buffer_events r) (ge_int 0);
         errors = errors_of f_platform @ errors_of f_stream_quality @ errors_of f_bandwidth_kbps
                  @ errors_of f_buffer_events
     in if errors = []
        then Inr \<lparr> StreamingEvent.platform = projr f_platform,
                   stream_quality = projr f_stream_quality,
                   bandwidth_kbps = projr f_bandwidth_kbps,
                   buffer_events = projr f_buffer_events \<rparr>
        else Inl errors)"

subsection \<open>MusicEvent\<close>

text \<open>
  The field \<^verbatim>\<open>event_type\<close> is annotated \<^verbatim>\<open>EventType\<close>, and \<^verbatim>\<open>MusicEvent.Config\<close> sets
  \<^verbatim>\<open>use_enum_values = True\<close>: pydantic 1.10 then stores the member's \<^verbatim>\<open>value\<close>, a plain
  \<^verbatim>\<open>str\<close>, in a validated model. \<open>Member m\<close> is the attribute holding the enumeration member,
  \<open>Plain s\<close> the attribute holding the plain string. The nested models have no such
  configuration, so \<^verbatim>\<open>StreamingEvent.platform\<close> and the genre lists hold members.
\<close>

datatype event_type_repr = Member EventType | Plain string

record raw_MusicEvent =
  event_id :: "string raw"
  event_type :: "string raw"
  timestamp :: "datetime raw"
  track :: "raw_Track raw"
  artist :: "raw_Artist raw"
  album :: "raw_Album raw"
  user_interaction :: "raw_UserInteraction raw"
  play_event :: "raw_PlayEvent raw"
  streaming_event :: "raw_StreamingEvent raw"
  raw_data :: "(string \<times> string) list raw"
  processing_timestamp :: "datetime raw"

record MusicEvent =
  event_id :: string
  event_type :: event_type_repr
  timestamp :: datetime
  track :: Track
  artist :: Artist
  album :: "Album option"
  user_interaction :: UserInteraction
  play_event :: "PlayEvent option"
  streaming_event :: StreamingEvent
  raw_data :: "(string \<times> string) list option"
  processing_timestamp :: datetime

text \<open>What the three \<^verbatim>\<open>default_factory\<close> calls return when they are made: \<^verbatim>\<open>str(uuid4())\<close>
  for \<^verbatim>\<open>event_id\<close>, \<^verbatim>\<open>datetime.utcnow()\<close> for \<^verbatim>\<open>timestamp\<close> and for
  \<^verbatim>\<open>processing_timestamp\<close>.\<close>

record env =
  uuid4 :: string
  utcnow_timestamp :: datetime
  utcnow_processing :: datetime

text \<open>A nested model: the sub-model's errors are reported under the field's key.\<close>

definition nested :: "string \<Rightarrow> 'a raw \<Rightarrow> ('a \<Rightarrow> verror list + 'b) \<Rightarrow> verror list + 'b" where
  "nested k r validate = (case r of
       Absent \<Rightarrow> Inl [([Key k], MissingError)]
     | Mistyped \<Rightarrow> Inl [([Key k], WrongTypeError)]
     | Value v \<Rightarrow> (case validate v of Inl es \<Rightarrow> Inl (under k es) | Inr x \<Rightarrow> Inr x))"

definition nested_optional ::
  "string \<Rightarrow> 'a raw \<Rightarrow> ('a \<Rightarrow> verror list + 'b) \<Rightarrow> verror list + 'b option" where
  "nested_optional k r validate = (case r of
       Absent \<Rightarrow> Inr None
     | Mistyped \<Rightarrow> Inl [([Key k], WrongTypeError)]
     | Value v \<Rightarrow> (case validate v of Inl es \<Rightarrow> Inl (under k es) | Inr x \<Rightarrow> Inr (Some x)))"

text \<open>\<^verbatim>\<open>event_type == EventType.PLAY\<close>: \<^verbatim>\<open>EventType\<close> derives from \<^verbatim>\<open>str\<close>, so a plain string
  equals the member with that value.\<close>

definition eq_member :: "event_type_repr \<Rightarrow> EventType \<Rightarrow> bool" where
  "eq_member x m = (case x of Member m' \<Rightarrow> m' = m | Plain s \<Rightarrow> s = EventType_value m)"

text \<open>The root validator reads the keys of \<^verbatim>\<open>values\<close> with \<^verbatim>\<open>get\<close>: a field that failed its
  own validation is missing there and reads as \<^verbatim>\<open>None\<close>. The result is the message of the
  \<^verbatim>\<open>ValueError\<close> raised, if any.\<close>

definition validate_event_consistency ::
  "event_type_repr option \<Rightarrow> PlayEvent option \<Rightarrow> Track option \<Rightarrow> Artist option \<Rightarrow> string option" where
  "validate_event_consistency event_type_v play_event_v track_v artist_v =
     (if (case event_type_v of None \<Rightarrow> False | Some t \<Rightarrow> eq_member t PLAY) \<and> play_event_v = None
      then Some ''Play events must include play_event data''
      else if (case (track_v, artist_v) of
                 (Some t, Some a) \<Rightarrow> Track.artist_id t \<noteq> Artist.id a
               | _ \<Rightarrow> False)
      then Some ''Track artist_id must match artist id''
      else None)"

definition MusicEvent_validate :: "env \<Rightarrow> raw_MusicEvent \<Rightarrow> verror list + MusicEvent" where
  "MusicEvent_validate e r =
    (let f_event_id = defaulted ''event_id'' (raw_MusicEvent.event_id r) (uuid4 e) accept;
         f_event_type = required ''event_type'' (raw_MusicEvent.event_type r)
            (\<lambda>v. and_then (enum_member EventType_of v) (\<lambda>m. Inr (Plain (EventType_value m))));
         f_timestamp =
            defaulted ''timestamp'' (raw_MusicEvent.timestamp r) (utcnow_timestamp e) accept;
         f_track = nested ''track'' (raw_MusicEvent.track r) Track_validate;
         f_artist = nested ''artist'' (raw_MusicEvent.artist r) Artist_validate;
         f_album = nested_optional ''album'' (raw_MusicEvent.album r) Album_validate;
         f_user_interaction =
            nested ''user_interaction'' (raw_MusicEvent.user_interaction r) UserInteraction_validate;
         f_play_event = nested_optional ''play_event'' (raw_MusicEvent.play_event r) PlayEvent_validate;
         f_streaming_event =
            nested ''streaming_event'' (raw_MusicEvent.streaming_event r) StreamingEvent_validate;
         f_raw_data = optional ''raw_data'' (raw_MusicEvent.raw_data r) accept;
         f_processing_timestamp = defaulted ''processing_timestamp''
            (raw_MusicEvent.processing_timestamp r) (utcnow_processing e) accept;
         root = validate_event_consistency (value_of f_event_type)
                  (case value_of f_play_event of None \<Rightarrow> None | Some p \<Rightarrow> p)
                  (value_of f_track) (value_of f_artist);
         errors = errors_of f_event_id @ errors_of f_event_type @ errors_of f_timestamp
                  @ errors_of f_track @ errors_of f_artist @ errors_of f_album
                  @ errors_of f_user_interaction @ errors_of f_play_event
                  @ errors_of f_streaming_event @ errors_of f_raw_data
                  @ errors_of f_processing_timestamp
                  @ (case root of None \<Rightarrow> [] | Some msg \<Rightarrow> [([Key ''__root__''], ValueError msg)])
     in if errors = []
        then Inr \<lparr> MusicEvent.event_id = projr f_event_id, event_type = projr f_event_type,
                   timestamp = projr f_timestamp, track = projr f_track, artist = projr f_artist,
                   album = projr f_album, user_interaction = projr f_user_interaction,
                   play_event = projr f_play_event, streaming_event = projr f_streaming_event,
                   raw_data = projr f_raw_data,
                   processing_timestamp = projr f_processing_timestamp \<rparr>
        else Inl errors)"

subsection \<open>\<^verbatim>\<open>ParseMusicEvent.process\<close>\<close>

text \<open>
  A Pub/Sub message by what \<^verbatim>\<open>message.decode('utf-8')\<close> and \<^verbatim>\<open>json.loads\<close> make of it:
  bytes that are not UTF-8, text that is not JSON, JSON that is not an object (the call
  \<^verbatim>\<open>MusicEvent(**event_data)\<close> then raises \<^verbatim>\<open>TypeError\<close>), or an object.
\<close>

datatype message = NotUtf8 | NotJson | NotAnObject | Object raw_MusicEvent

datatype exn = UnicodeDecodeError | JSONDecodeError | TypeError | ValidationError "verror list"

datatype log_entry = FailedToParse exn | UnexpectedError exn

record parse_state =
  success_counter :: nat
  error_counter :: nat
  log :: "log_entry list"

definition parse :: "env \<Rightarrow> message \<Rightarrow> exn + MusicEvent" where
  "parse e m = (case m of
       NotUtf8 \<Rightarrow> Inl UnicodeDecodeError
     | NotJson \<Rightarrow> Inl JSONDecodeError
     | NotAnObject \<Rightarrow> Inl TypeError
     | Object r \<Rightarrow> (case MusicEvent_validate e r of
                      Inl es \<Rightarrow> Inl (ValidationError es)
                    | Inr ev \<Rightarrow> Inr ev))"

text \<open>\<^verbatim>\<open>except (json.JSONDecodeError, ValidationError, UnicodeDecodeError)\<close>.\<close>

definition caught_first :: "exn \<Rightarrow> bool" where
  "caught_first x = (case x of
       JSONDecodeError \<Rightarrow> True
     | ValidationError _ \<Rightarrow> True
     | UnicodeDecodeError \<Rightarrow> True
     | TypeError \<Rightarrow> False)"

text \<open>The generator's yielded elements and the state after it: the \<^verbatim>\<open>try\<close> body, the
  handler of the three named exceptions, and the handler of every other exception.\<close>

definition ParseMusicEvent_process ::
  "parse_state \<Rightarrow> env \<Rightarrow> message \<Rightarrow> MusicEvent list \<times> parse_state" where
  "ParseMusicEvent_process st e m = (case parse e m of
       Inr music_event \<Rightarrow> ([music_event], st\<lparr> success_counter := success_counter st + 1 \<rparr>)
     | Inl x \<Rightarrow>
         (if caught_first x
          then ([], st\<lparr> error_counter := error_counter st + 1,
                        log := log st @ [FailedToParse x] \<rparr>)
          else ([], st\<lparr> error_counter := error_counter st + 1,
                        log := log st @ [UnexpectedError x] \<rparr>)))"

subsection \<open>\<^verbatim>\<open>EnrichEventMetadata\<close>: derived fields\<close>

datatype py_error = AttributeError | ZeroDivisionError

text \<open>The attribute access \<^verbatim>\<open>event.event_type.value\<close>: an enumeration member has the
  attribute, a plain \<^verbatim>\<open>str\<close> has not.\<close>

definition value_attr :: "event_type_repr \<Rightarrow> py_error + string" where
  "value_attr x = (case x of Member m \<Rightarrow> Inr (EventType_value m) | Plain s \<Rightarrow> Inl AttributeError)"

text \<open>True division \<^verbatim>\<open>a / b\<close> of two \<^verbatim>\<open>int\<close>s.\<close>

definition truediv :: "int \<Rightarrow> int \<Rightarrow> py_error + real" where
  "truediv a b = (if b = 0 then Inl ZeroDivisionError else Inr (real_of_int a / real_of_int b))"

text \<open>Truth value of an \<^verbatim>\<open>Optional[int]\<close>: \<^verbatim>\<open>None\<close> and \<^verbatim>\<open>0\<close> are false.\<close>

definition truthy :: "int option \<Rightarrow> bool" where
  "truthy x = (case x of None \<Rightarrow> False | Some n \<Rightarrow> n \<noteq> 0)"

text \<open>\<^verbatim>\<open>datetime.weekday()\<close>: the proleptic Gregorian ordinal of the date, Monday is 0.
  The month of a \<^verbatim>\<open>datetime\<close> is between 1 and 12.\<close>

definition is_leap :: "int \<Rightarrow> bool" where
  "is_leap y = (y mod 4 = 0 \<and> (y mod 100 \<noteq> 0 \<or> y mod 400 = 0))"

definition days_before_year :: "int \<Rightarrow> int" where
  "days_before_year y = (y - 1) * 365 + (y - 1) div 4 - (y - 1) div 100 + (y - 1) div 400"

definition days_before_month :: "int \<Rightarrow> int \<Rightarrow> int" where
  "days_before_month y m =
     [0, 0, 31, 59, 90, 120, 151, 181, 212, 243, 273, 304, 334] ! nat m
       + (if m > 2 \<and> is_leap y then 1 else 0)"

definition toordinal :: "datetime \<Rightarrow> int" where
  "toordinal d = days_before_year (datetime.year d)
       + days_before_month (datetime.year d) (datetime.month d) + datetime.day d"

definition weekday :: "datetime \<Rightarrow> int" where
  "weekday d = (toordinal d + 6) mod 7"

definition calculate_engagement_score :: "MusicEvent \<Rightarrow> py_error + real" where
  "calculate_engagement_score event =
     (let score = 0.5
      in and_then
           (if MusicEvent.play_event event \<noteq> None \<and> truthy (Track.duration_ms (MusicEvent.track event))
            then and_then
                   (truediv (PlayEvent.played_duration_ms (the (MusicEvent.play_event event)))
                            (the (Track.duration_ms (MusicEvent.track event))))
                   (\<lambda>play_ratio. Inr (score + play_ratio * 0.3))
            else Inr score)
       (\<lambda>score. and_then (value_attr (MusicEvent.event_type event))
       (\<lambda>v. let score = (if v \<in> set [''like'', ''share'', ''playlist_add'']
                         then score + 0.4 else score);
                score = (if MusicEvent.play_event event \<noteq> None
                            \<and> PlayEvent.repeat_mode (the (MusicEvent.play_event event)) \<noteq> ''off''
                         then score + 0.1 else score)
            in and_then (value_attr (MusicEvent.event_type event))
       (\<lambda>v. let score = (if v = ''skip'' then score - 0.2 else score)
            in Inr (max 0.0 (min 1.0 score))))))"

definition categorize_platform :: "string \<Rightarrow> string" where
  "categorize_platform p =
     (let premium_platforms = [''spotify'', ''apple_music'', ''tidal''];
          ad_supported = [''youtube_music'', ''soundcloud'', ''pandora'']
      in if p \<in> set premium_platforms then ''premium''
         else if p \<in> set ad_supported then ''ad_supported''
         else ''other'')"

text \<open>The dictionary \<^verbatim>\<open>derived_fields\<close>: a key that is set only under a condition is an
  optional field.\<close>

record derived_fields =
  hour_of_day :: int
  day_of_week :: int
  is_weekend :: bool
  month :: int
  year :: int
  track_duration_seconds :: "real option"
  is_long_track :: "bool option"
  is_short_track :: "bool option"
  play_completion_ratio :: "real option"
  is_full_play :: "bool option"
  is_skip :: "bool option"
  engagement_score :: real
  platform_category :: string

definition calculate_derived_fields :: "MusicEvent \<Rightarrow> py_error + derived_fields" where
  "calculate_derived_fields event =
     (let ts = MusicEvent.timestamp event;
          duration_seconds =
            (if truthy (Track.duration_ms (MusicEvent.track event))
             then Some (real_of_int (the (Track.duration_ms (MusicEvent.track event))) / 1000) else None)
      in and_then
           (if MusicEvent.play_event event \<noteq> None \<and> truthy (Track.duration_ms (MusicEvent.track event))
            then and_then
                   (truediv (PlayEvent.played_duration_ms (the (MusicEvent.play_event event)))
                            (the (Track.duration_ms (MusicEvent.track event))))
                   (\<lambda>play_ratio. Inr (Some play_ratio))
            else Inr None)
       (\<lambda>play_ratio. and_then (calculate_engagement_score event)
       (\<lambda>score.
          Inr \<lparr> hour_of_day = datetime.hour ts,
                day_of_week = weekday ts,
                is_weekend = (weekday ts \<ge> 5),
                month = datetime.month ts,
                year = datetime.year ts,
                track_duration_seconds = duration_seconds,
                is_long_track = map_option (\<lambda>d. d > 300) duration_seconds,
                is_short_track = map_option (\<lambda>d. d < 120) duration_seconds,
                play_completion_ratio = map_option (\<lambda>r. min r 1.0) play_ratio,
                is_full_play = map_option (\<lambda>r. r \<ge> 0.8) play_ratio,
                is_skip = map_option (\<lambda>r. r < 0.3) play_ratio,
                engagement_score = score,
                platform_category =
                  categorize_platform (Platform_value (StreamingEvent.platform (MusicEvent.streaming_event event))) \<rparr>)))"

text \<open>The engagement score as the specification words it (section 4.2, steps 3 and 4):
  the completion ratio is \<open>min (played / duration) 1\<close>, computed when both the play detail
  and the track duration are present.\<close>

definition kind_of :: "event_type_repr \<Rightarrow> string" where
  "kind_of x = (case x of Member m \<Rightarrow> EventType_value m | Plain s \<Rightarrow> s)"

definition spec_completion_ratio :: "MusicEvent \<Rightarrow> real option" where
  "spec_completion_ratio event = (case (MusicEvent.play_event event, Track.duration_ms (MusicEvent.track event)) of
       (Some p, Some d) \<Rightarrow> Some (min (real_of_int (PlayEvent.played_duration_ms p) / real_of_int d) 1)
     | _ \<Rightarrow> None)"

definition spec_engagement_score :: "MusicEvent \<Rightarrow> real" where
  "spec_engagement_score event =
     (let s0 = 0.5;
          s1 = (case spec_completion_ratio event of Some ratio \<Rightarrow> s0 + ratio * 0.3 | None \<Rightarrow> s0);
          s2 = (if kind_of (MusicEvent.event_type event) \<in> {''like'', ''share'', ''playlist_add''}
                then s1 + 0.4 else s1);
          s3 = (case MusicEvent.play_event event of
                  Some p \<Rightarrow> if PlayEvent.repeat_mode p \<noteq> ''off'' then s2 + 0.1 else s2
                | None \<Rightarrow> s2);
          s4 = (if kind_of (MusicEvent.event_type event) = ''skip'' then s3 - 0.2 else s3)
      in max 0 (min 1 s4))"

subsection \<open>Binary64 arithmetic\<close>

text \<open>
  The engagement scores of the enriched rows are Python \<^verbatim>\<open>float\<close>s, and the aggregation adds
  and divides them as such. A \<^verbatim>\<open>float\<close> is a real number with a 53-bit significand;
  \<open>binary64 x\<close> is the nearest such number to \<open>x\<close>, ties to the even significand, which is
  the result of every correctly rounded operation. \<open>scale53\<close> doubles or halves a positive
  \<open>x\<close> until it lies between \<open>2 ^ 52\<close> and \<open>2 ^ 53\<close> and returns it with the weight of its
  last bit; 1200 steps cover the exponents of binary64. The exponent range itself is not
  bounded: overflow and subnormal numbers, which sums of scores between 0 and 1 do not
  reach, are not represented.
\<close>

fun scale53 :: "nat \<Rightarrow> real \<Rightarrow> real \<Rightarrow> real \<times> real" where
  "scale53 0 x u = (x, u)"
| "scale53 (Suc n) x u =
     (if x < 2 ^ 52 then scale53 n (2 * x) (u / 2)
      else if x \<ge> 2 ^ 53 then scale53 n (x / 2) (2 * u)
      else (x, u))"

definition round_half_even :: "real \<Rightarrow> int" where
  "round_half_even q =
     (let f = \<lfloor>q\<rfloor>; d = q - of_int f
      in if d < 1 / 2 then f
         else if d > 1 / 2 then f + 1
         else if even f then f else f + 1)"

definition binary64 :: "real \<Rightarrow> real" where
  "binary64 x =
     (if x = 0 then 0
      else case scale53 1200 \<bar>x\<bar> 1 of (m, u) \<Rightarrow> sgn x * of_int (round_half_even m) * u)"

definition float_add :: "real \<Rightarrow> real \<Rightarrow> real" where
  "float_add a b = binary64 (a + b)"

definition float_truediv :: "real \<Rightarrow> real \<Rightarrow> real" where
  "float_truediv a b = binary64 (a / b)"

text \<open>\<^verbatim>\<open>sum(xs)\<close> of Python 3.11 and earlier (the versions that \<^verbatim>\<open>apache-beam==2.54.0\<close>
  supports): the total starts at 0 and takes the items from left to right.\<close>

definition py_sum :: "real list \<Rightarrow> real" where
  "py_sum xs = fold (\<lambda>x total. float_add total x) xs 0"

subsection \<open>\<^verbatim>\<open>AggregateEventMetrics.process\<close>\<close>

text \<open>
  An enriched event dictionary by the keys the aggregation reads, typed as
  \<^verbatim>\<open>_convert_to_bigquery_row\<close> writes them; \<^verbatim>\<open>engagement_score\<close> is \<open>None\<close> when the key is
  missing (the row of the fallback path) and a binary64 value otherwise. A Python \<^verbatim>\<open>dict\<close>
  of counts is an association list in insertion order.
\<close>

record enriched_row =
  user_id :: string
  track_id :: string
  platform :: string
  event_type :: string
  engagement_score :: "real option"
  timestamp :: string

record aggregated_metrics =
  window_start :: string
  window_end :: string
  total_events :: nat
  unique_users :: nat
  unique_tracks :: nat
  platform_distribution :: "(string \<times> nat) list"
  event_type_distribution :: "(string \<times> nat) list"
  average_engagement_score :: real
  aggregation_timestamp :: string

definition dict_get :: "('k \<times> 'v) list \<Rightarrow> 'k \<Rightarrow> 'v \<Rightarrow> 'v" where
  "dict_get d k dflt = (case map_of d k of None \<Rightarrow> dflt | Some v \<Rightarrow> v)"

text \<open>The counting loop \<^verbatim>\<open>counts[k] = counts.get(k, 0) + 1\<close> over the events.\<close>

definition count_by :: "('a \<Rightarrow> string) \<Rightarrow> 'a list \<Rightarrow> (string \<times> nat) list" where
  "count_by key events =
     fold (\<lambda>event counts. AList.update (key event) (dict_get counts (key event) 0 + 1) counts)
          events []"

text \<open>\<^verbatim>\<open>min\<close> and \<^verbatim>\<open>max\<close> of a non-empty sequence.\<close>

definition py_min :: "'a::linorder list \<Rightarrow> 'a" where
  "py_min xs = fold min (tl xs) (hd xs)"

definition py_max :: "'a::linorder list \<Rightarrow> 'a" where
  "py_max xs = fold max (tl xs) (hd xs)"

text \<open>The list \<^verbatim>\<open>engagement_scores\<close>: the scores of the events that have the key, in
  arrival order.\<close>

definition engagement_scores :: "enriched_row list \<Rightarrow> real list" where
  "engagement_scores events =
     map (\<lambda>event. case enriched_row.engagement_score event of None \<Rightarrow> 0.0 | Some s \<Rightarrow> s)
         (filter (\<lambda>event. enriched_row.engagement_score event \<noteq> None) events)"

text \<open>The argument \<open>now\<close> is the reading of \<^verbatim>\<open>datetime.utcnow().isoformat()\<close>; the result is
  the list of yielded dictionaries (none for an empty window).\<close>

definition AggregateEventMetrics_process :: "string \<Rightarrow> enriched_row list \<Rightarrow> aggregated_metrics list" where
  "AggregateEventMetrics_process now events =
     (if events = [] then []
      else
        let avg_engagement =
              (if engagement_scores events \<noteq> []
               then float_truediv (py_sum (engagement_scores events))
                      (real (length (engagement_scores events)))
               else 0.0)
        in [\<lparr> window_start = py_min (map enriched_row.timestamp events),
               window_end = py_max (map enriched_row.timestamp events),
               total_events = length events,
               unique_users = card (set (map enriched_row.user_id events)),
               unique_tracks = card (set (map enriched_row.track_id events)),
               platform_distribution = count_by enriched_row.platform events,
               event_type_distribution = count_by enriched_row.event_type events,
               average_engagement_score = avg_engagement,
               aggregation_timestamp = now \<rparr>])"


subsection \<open>Grouping by platform (\<^verbatim>\<open>dataflow_pipeline.py\<close>, \<^verbatim>\<open>platform_metrics\<close>)\<close>

text \<open>
  The elements of one window by the keys the stage reads with \<^verbatim>\<open>get\<close> (\<open>None\<close>: the key is
  missing). A \<^verbatim>\<open>PCollection\<close> has no order, so the output of a stage is a multiset:
  \<open>GroupByKey\<close> gives one pair per distinct key, with the values of that key. The argument
  \<open>now\<close> gives the reading of \<^verbatim>\<open>datetime.utcnow().isoformat()\<close> when the row of a key is
  built.
\<close>

record analytics_element =
  platform :: "string option"
  is_premium_platform :: "bool option"

record platform_metrics_row =
  platform :: string
  count :: nat
  premium_ratio :: real
  window_start :: string

definition GroupByKey :: "('k \<times> 'v) list \<Rightarrow> ('k \<times> 'v list) multiset" where
  "GroupByKey kvs =
     mset (map (\<lambda>k. (k, map snd (filter (\<lambda>kv. fst kv = k) kvs))) (remdups (map fst kvs)))"

definition platform_metrics ::
  "(string \<Rightarrow> string) \<Rightarrow> analytics_element list \<Rightarrow> platform_metrics_row multiset" where
  "platform_metrics now windowed_events =
     image_mset
       (\<lambda>x. \<lparr> platform_metrics_row.platform = fst x,
                count = length (snd x),
                premium_ratio =
                  real (length (filter
                     (\<lambda>e. case analytics_element.is_premium_platform e of None \<Rightarrow> False | Some b \<Rightarrow> b)
                     (snd x))) / real (length (snd x)),
                window_start = now (fst x) \<rparr>)
       (GroupByKey
          (map (\<lambda>x. (case analytics_element.platform x of None \<Rightarrow> ''unknown'' | Some p \<Rightarrow> p, x))
               windowed_events))"

subsection \<open>Sample data\<close>

text \<open>Concrete inputs in the shape of the fixtures of \<^verbatim>\<open>tests/test_music_events.py\<close>: raw
  records, the models that validation builds from them, enriched rows of one window and
  elements of the platform grouping.\<close>

definition sample_datetime :: datetime where
  "sample_datetime = \<lparr> datetime.year = 2024, month = 1, day = 15, hour = 10, minute = 30,
     second = 0, microsecond = 0, utcoffset = None \<rparr>"

definition sample_env :: env where
  "sample_env = \<lparr> uuid4 = ''6f1c0a52-0000-4000-8000-000000000001'',
     utcnow_timestamp = sample_datetime\<lparr> datetime.second := 1 \<rparr>,
     utcnow_processing = sample_datetime\<lparr> datetime.second := 2 \<rparr> \<rparr>"

definition sample_raw_artist :: raw_Artist where
  "sample_raw_artist = \<lparr> raw_Artist.id = Value ''artist-001'', name = Value ''  Test Artist  '',
     genres = Value [''pop'', ''rock''], followers = Value 100000, verified = Value True,
     country = Value ''US'' \<rparr>"

definition sample_raw_track :: "int raw \<Rightarrow> raw_Track" where
  "sample_raw_track d = \<lparr> raw_Track.id = Value ''track-001'', name = Value ''Test Song'',
     artist_id = Value ''artist-001'', album_id = Absent, duration_ms = d, explicit = Value False,
     popularity = Value 75, energy = Value 0.8, valence = Value 0.6, tempo = Value 120,
     genres = Value [''pop''] \<rparr>"

definition sample_raw_album :: raw_Album where
  "sample_raw_album = \<lparr> raw_Album.id = Value ''album-001'', name = Value ''Test Album '',
     artist_id = Value ''artist-001'', release_date = Absent, track_count = Value 12,
     genres = Value [''pop''] \<rparr>"

definition sample_raw_user_interaction :: raw_UserInteraction where
  "sample_raw_user_interaction = \<lparr> raw_UserInteraction.user_id = Value ''user-001'',
     session_id = Value ''session-001'', device_type = Value ''mobile'', location = Value ''US'',
     subscription_type = Value ''premium'', user_age_group = Value ''25-34'' \<rparr>"

definition sample_raw_play_event :: "int \<Rightarrow> raw_PlayEvent" where
  "sample_raw_play_event p = \<lparr> raw_PlayEvent.played_duration_ms = Value p, skip_reason = Absent,
     playlist_id = Value ''playlist-001'', shuffle_mode = Value False, repeat_mode = Value ''off'' \<rparr>"

definition sample_raw_streaming_event :: "string \<Rightarrow> raw_StreamingEvent" where
  "sample_raw_streaming_event p = \<lparr> raw_StreamingEvent.platform = Value p,
     stream_quality = Value ''high'', bandwidth_kbps = Value 320, buffer_events = Value 0 \<rparr>"

definition sample_raw_event :: "string \<Rightarrow> int raw \<Rightarrow> raw_PlayEvent raw \<Rightarrow> raw_MusicEvent" where
  "sample_raw_event kind d pe = \<lparr> raw_MusicEvent.event_id = Absent, event_type = Value kind,
     timestamp = Value sample_datetime, track = Value (sample_raw_track d),
     artist = Value sample_raw_artist, album = Absent,
     user_interaction = Value sample_raw_user_interaction, play_event = pe,
     streaming_event = Value (sample_raw_streaming_event ''spotify''), raw_data = Absent,
     processing_timestamp = Absent \<rparr>"

definition sample_artist :: Artist where
  "sample_artist = \<lparr> Artist.id = ''artist-001'', name = ''Test Artist'',
     genres = [POP, ROCK], followers = Some 100000, verified = True, country = Some ''US'' \<rparr>"

definition sample_album :: Album where
  "sample_album = \<lparr> Album.id = ''album-001'', name = ''Test Album'', artist_id = ''artist-001'',
     release_date = None, track_count = Some 12, genres = [POP] \<rparr>"

definition sample_track :: "int option \<Rightarrow> Track" where
  "sample_track d = \<lparr> Track.id = ''track-001'', name = ''Test Song'', artist_id = ''artist-001'',
     album_id = None, duration_ms = d, explicit = False, popularity = Some 75,
     energy = Some 0.8, valence = Some 0.6, tempo = Some 120, genres = [POP] \<rparr>"

definition sample_user_interaction :: UserInteraction where
  "sample_user_interaction = \<lparr> UserInteraction.user_id = ''user-001'',
     session_id = ''session-001'', device_type = Some ''mobile'', location = Some ''US'',
     subscription_type = Some ''premium'', user_age_group = Some ''25-34'' \<rparr>"

definition sample_play_event :: "int \<Rightarrow> PlayEvent" where
  "sample_play_event p = \<lparr> PlayEvent.played_duration_ms = p, skip_reason = None,
     playlist_id = Some ''playlist-001'', shuffle_mode = False, repeat_mode = ''off'' \<rparr>"

definition sample_streaming_event :: "Platform \<Rightarrow> StreamingEvent" where
  "sample_streaming_event p = \<lparr> StreamingEvent.platform = p, stream_quality = Some ''high'',
     bandwidth_kbps = Some 320, buffer_events = Some 0 \<rparr>"

definition sample_event :: "env \<Rightarrow> event_type_repr \<Rightarrow> int option \<Rightarrow> PlayEvent option \<Rightarrow> MusicEvent" where
  "sample_event e kind d pe = \<lparr> MusicEvent.event_id = uuid4 e, event_type = kind,
     timestamp = sample_datetime, track = sample_track d, artist = sample_artist, album = None,
     user_interaction = sample_user_interaction, play_event = pe,
     streaming_event = sample_streaming_event SPOTIFY, raw_data = None,
     processing_timestamp = utcnow_processing e \<rparr>"

definition sample_raw_event_on :: "string \<Rightarrow> raw_MusicEvent" where
  "sample_raw_event_on p =
     (sample_raw_event ''play'' (Value 354000) (Value (sample_raw_play_event 354000)))
       \<lparr> raw_MusicEvent.streaming_event := Value (sample_raw_streaming_event p) \<rparr>"

definition sample_event_on :: "env \<Rightarrow> Platform \<Rightarrow> MusicEvent" where
  "sample_event_on e p =
     (sample_event e (Plain ''play'') (Some 354000) (Some (sample_play_event 354000)))
       \<lparr> MusicEvent.streaming_event := sample_streaming_event p \<rparr>"

definition sample_env' :: env where
  "sample_env' = \<lparr> uuid4 = ''6f1c0a52-0000-4000-8000-000000000002'',
     utcnow_timestamp = sample_datetime\<lparr> datetime.second := 3 \<rparr>,
     utcnow_processing = sample_datetime\<lparr> datetime.second := 4 \<rparr> \<rparr>"

definition sample_rows :: "enriched_row list" where
  "sample_rows =
     [\<lparr> enriched_row.user_id = ''user-001'', track_id = ''track-001'', platform = ''spotify'',
         event_type = ''play'', engagement_score = Some (binary64 0.8),
         timestamp = ''2024-01-15T10:30:00'' \<rparr>,
      \<lparr> enriched_row.user_id = ''user-002'', track_id = ''track-001'', platform = ''soundcloud'',
         event_type = ''skip'', engagement_score = Some (binary64 0.3),
         timestamp = ''2024-01-15T10:30:20'' \<rparr>,
      \<lparr> enriched_row.user_id = ''user-001'', track_id = ''track-002'', platform = ''spotify'',
         event_type = ''like'', engagement_score = None,
         timestamp = ''2024-01-15T10:30:40'' \<rparr>]"


definition sample_elements :: "analytics_element list" where
  "sample_elements =
     [\<lparr> analytics_element.platform = Some ''spotify'', is_premium_platform = Some True \<rparr>,
      \<lparr> analytics_element.platform = Some ''soundcloud'', is_premium_platform = Some False \<rparr>]"

section \<open>Properties\<close>

subsection \<open>Evaluation of the sample data\<close>

lemmas field_defs = required_def optional_def defaulted_def nested_def nested_optional_def
  genre_list_def errors_of_def value_of_def and_then_def min_length_def max_length_def accept_def
  ge_int_def le_int_def ge_float_def le_float_def enum_member_def under_def

lemma strip_Test_Artist: "strip ''  Test Artist  '' = ''Test Artist''"
  by (simp add: strip_def isspace_def)

lemma strip_Test_Song: "strip ''Test Song'' = ''Test Song''"
  by (simp add: strip_def isspace_def)

lemma validate_sample_artist: "Artist_validate sample_raw_artist = Inr sample_artist"
  by (simp add: Artist_validate_def sample_raw_artist_def sample_artist_def field_defs
      Artist_validate_name_def strip_Test_Artist Genre_of_def Genre_members_def)

lemma validate_sample_track:
  "0 \<le> d \<Longrightarrow> Track_validate (sample_raw_track (Value d)) = Inr (sample_track (Some d))"
  by (simp add: Track_validate_def sample_raw_track_def sample_track_def field_defs
      Track_validate_name_def strip_Test_Song Genre_of_def Genre_members_def)

lemma validate_sample_user_interaction:
  "UserInteraction_validate sample_raw_user_interaction = Inr sample_user_interaction"
  by (simp add: UserInteraction_validate_def sample_raw_user_interaction_def
      sample_user_interaction_def field_defs)

lemma validate_sample_play_event:
  "0 \<le> p \<Longrightarrow> PlayEvent_validate (sample_raw_play_event p) = Inr (sample_play_event p)"
  by (simp add: PlayEvent_validate_def sample_raw_play_event_def sample_play_event_def field_defs
      validate_repeat_mode_def)

lemma validate_sample_streaming_event:
  "StreamingEvent_validate (sample_raw_streaming_event ''spotify'') = Inr (sample_streaming_event SPOTIFY)"
  by (simp add: StreamingEvent_validate_def sample_raw_streaming_event_def
      sample_streaming_event_def field_defs Platform_of_def Platform_members_def)

lemma EventType_of_value: "EventType_of (EventType_value m) = Some m"
  by (cases m) (simp_all add: EventType_of_def EventType_members_def)

lemma validate_sample_event:
  assumes "0 \<le> d" "0 \<le> p"
  shows "MusicEvent_validate e (sample_raw_event (EventType_value m) (Value d) (Value (sample_raw_play_event p)))
    = Inr (sample_event e (Plain (EventType_value m)) (Some d) (Some (sample_play_event p)))"
  using assms
  by (simp add: MusicEvent_validate_def sample_raw_event_def sample_event_def field_defs
      validate_sample_artist validate_sample_track validate_sample_user_interaction
      validate_sample_play_event validate_sample_streaming_event EventType_of_value
      validate_event_consistency_def eq_member_def sample_track_def sample_artist_def)


lemma strip_Test_Album: "strip ''Test Album '' = ''Test Album''"
  by (simp add: strip_def isspace_def)

lemma validate_sample_album: "Album_validate sample_raw_album = Inr sample_album"
  by (simp add: Album_validate_def sample_raw_album_def sample_album_def field_defs
      Album_validate_name_def strip_Test_Album Genre_of_def Genre_members_def)

subsection \<open>Names of accepted entities\<close>

lemma strip_prefix: "strip s @ rev (takeWhile isspace (rev (dropWhile isspace s))) = dropWhile isspace s"
proof -
  let ?t = "dropWhile isspace s"
  have "rev (dropWhile isspace (rev ?t)) @ rev (takeWhile isspace (rev ?t))
        = rev (takeWhile isspace (rev ?t) @ dropWhile isspace (rev ?t))"
    by (simp only: rev_append)
  also have "\<dots> = rev (rev ?t)" by (simp only: takeWhile_dropWhile_id)
  also have "\<dots> = ?t" by simp
  finally show ?thesis by (simp add: strip_def)
qed

lemma strip_hd: assumes "strip s \<noteq> []" shows "\<not> isspace (hd (strip s))"
proof -
  let ?t = "dropWhile isspace s"
  from assms have "hd (strip s) = hd ?t"
    using strip_prefix [of s] by (metis hd_append2)
  moreover from assms have "?t \<noteq> []" using strip_prefix [of s] by (metis append_is_Nil_conv)
  ultimately show ?thesis using hd_dropWhile [of isspace s] by simp
qed

lemma strip_last: assumes "strip s \<noteq> []" shows "\<not> isspace (last (strip s))"
proof -
  let ?r = "dropWhile isspace (rev (dropWhile isspace s))"
  from assms have ne: "?r \<noteq> []" by (simp add: strip_def)
  have "last (strip s) = hd ?r" using ne by (simp add: strip_def last_rev)
  then show ?thesis using hd_dropWhile [OF ne] by simp
qed

lemma required_errors_Nil:
  "errors_of (required k r f) = [] \<Longrightarrow> \<exists>v. r = Value v \<and> f v = Inr (projr (required k r f))"
  by (auto simp: required_def errors_of_def split: raw.splits sum.splits)

lemma name_chain:
  "and_then (and_then (min_length 1 v) (max_length n)) g = Inr x \<Longrightarrow> g v = Inr x"
  by (auto simp: and_then_def min_length_def max_length_def split: sum.splits if_splits)

lemma Artist_validate_Inr:
  assumes "Artist_validate r = Inr a"
  shows "\<exists>s. raw_Artist.name r = Value s \<and> Artist.name a = strip s \<and> strip s \<noteq> []"
proof -
  let ?f = "required ''name'' (raw_Artist.name r)
            (\<lambda>v. and_then (and_then (min_length 1 v) (max_length 200)) Artist_validate_name)"
  from assms have e: "errors_of ?f = []" and n: "Artist.name a = projr ?f"
    by (auto simp: Artist_validate_def Let_def split: if_splits)
  from required_errors_Nil [OF e] obtain s where s: "raw_Artist.name r = Value s"
    and c: "and_then (and_then (min_length 1 s) (max_length 200)) Artist_validate_name = Inr (projr ?f)"
    by blast
  from name_chain [OF c] have "Artist_validate_name s = Inr (projr ?f)" .
  then have "projr ?f = strip s \<and> strip s \<noteq> []"
    by (auto simp: Artist_validate_name_def split: if_splits)
  with s n show ?thesis by simp
qed


lemma Album_validate_Inr:
  assumes "Album_validate r = Inr a"
  shows "\<exists>s. raw_Album.name r = Value s \<and> Album.name a = strip s \<and> strip s \<noteq> []"
proof -
  let ?f = "required ''name'' (raw_Album.name r)
            (\<lambda>v. and_then (and_then (min_length 1 v) (max_length 300)) Album_validate_name)"
  from assms have e: "errors_of ?f = []" and n: "Album.name a = projr ?f"
    by (auto simp: Album_validate_def Let_def split: if_splits)
  from required_errors_Nil [OF e] obtain s where s: "raw_Album.name r = Value s"
    and c: "and_then (and_then (min_length 1 s) (max_length 300)) Album_validate_name = Inr (projr ?f)"
    by blast
  from name_chain [OF c] have "Album_validate_name s = Inr (projr ?f)" .
  then have "projr ?f = strip s \<and> strip s \<noteq> []"
    by (auto simp: Album_validate_name_def split: if_splits)
  with s n show ?thesis by simp
qed

lemma Track_validate_Inr:
  assumes "Track_validate r = Inr a"
  shows "\<exists>s. raw_Track.name r = Value s \<and> Track.name a = strip s \<and> strip s \<noteq> []"
proof -
  let ?f = "required ''name'' (raw_Track.name r)
            (\<lambda>v. and_then (and_then (min_length 1 v) (max_length 300)) Track_validate_name)"
  from assms have e: "errors_of ?f = []" and n: "Track.name a = projr ?f"
    by (auto simp: Track_validate_def Let_def split: if_splits)
  from required_errors_Nil [OF e] obtain s where s: "raw_Track.name r = Value s"
    and c: "and_then (and_then (min_length 1 s) (max_length 300)) Track_validate_name = Inr (projr ?f)"
    by blast
  from name_chain [OF c] have "Track_validate_name s = Inr (projr ?f)" .
  then have "projr ?f = strip s \<and> strip s \<noteq> []"
    by (auto simp: Track_validate_name_def split: if_splits)
  with s n show ?thesis by simp
qed

text \<open>
  Claim C10. Every Track, Artist and Album accepted by validation stores a normalised name:
  the stored name is the whitespace-stripped form of the input name, it is not empty, and
  it neither starts nor ends with a whitespace character.
\<close>

theorem accepted_names_are_stripped:
  "(Track_validate rt = Inr t \<longrightarrow>
      (\<exists>s. raw_Track.name rt = Value s \<and> Track.name t = strip s) \<and> Track.name t \<noteq> []
      \<and> \<not> isspace (hd (Track.name t)) \<and> \<not> isspace (last (Track.name t)))
   \<and> (Artist_validate ra = Inr a \<longrightarrow>
      (\<exists>s. raw_Artist.name ra = Value s \<and> Artist.name a = strip s) \<and> Artist.name a \<noteq> []
      \<and> \<not> isspace (hd (Artist.name a)) \<and> \<not> isspace (last (Artist.name a)))
   \<and> (Album_validate rb = Inr b \<longrightarrow>
      (\<exists>s. raw_Album.name rb = Value s \<and> Album.name b = strip s) \<and> Album.name b \<noteq> []
      \<and> \<not> isspace (hd (Album.name b)) \<and> \<not> isspace (last (Album.name b)))"
proof (intro conjI impI)
  assume "Track_validate rt = Inr t"
  from Track_validate_Inr [OF this] obtain s
    where s: "raw_Track.name rt = Value s" "Track.name t = strip s" "strip s \<noteq> []" by blast
  then show "\<exists>s. raw_Track.name rt = Value s \<and> Track.name t = strip s" by blast
  from s show "Track.name t \<noteq> []" by simp
  from s show "\<not> isspace (hd (Track.name t))" by (simp add: strip_hd)
  from s show "\<not> isspace (last (Track.name t))" by (simp add: strip_last)
next
  assume "Artist_validate ra = Inr a"
  from Artist_validate_Inr [OF this] obtain s
    where s: "raw_Artist.name ra = Value s" "Artist.name a = strip s" "strip s \<noteq> []" by blast
  then show "\<exists>s. raw_Artist.name ra = Value s \<and> Artist.name a = strip s" by blast
  from s show "Artist.name a \<noteq> []" by simp
  from s show "\<not> isspace (hd (Artist.name a))" by (simp add: strip_hd)
  from s show "\<not> isspace (last (Artist.name a))" by (simp add: strip_last)
next
  assume "Album_validate rb = Inr b"
  from Album_validate_Inr [OF this] obtain s
    where s: "raw_Album.name rb = Value s" "Album.name b = strip s" "strip s \<noteq> []" by blast
  then show "\<exists>s. raw_Album.name rb = Value s \<and> Album.name b = strip s" by blast
  from s show "Album.name b \<noteq> []" by simp
  from s show "\<not> isspace (hd (Album.name b))" by (simp add: strip_hd)
  from s show "\<not> isspace (last (Album.name b))" by (simp add: strip_last)
qed

theorem accepted_names_are_stripped_witness:
  "Track_validate (sample_raw_track (Value 210000)) = Inr (sample_track (Some 210000))
   \<and> Artist_validate sample_raw_artist = Inr sample_artist
   \<and> Album_validate sample_raw_album = Inr sample_album
   \<and> raw_Artist.name sample_raw_artist = Value ''  Test Artist  ''
   \<and> Artist.name sample_artist = ''Test Artist''
   \<and> \<not> isspace (hd (Track.name (sample_track (Some 210000))))
   \<and> \<not> isspace (last (Artist.name sample_artist))
   \<and> \<not> isspace (last (Album.name sample_album))"
  using accepted_names_are_stripped [of "sample_raw_track (Value 210000)" "sample_track (Some 210000)"
      sample_raw_artist sample_artist sample_raw_album sample_album]
  by (simp add: validate_sample_track validate_sample_artist validate_sample_album)
     (simp add: sample_raw_artist_def sample_artist_def)


subsection \<open>The cross-field rule on play events\<close>

lemma EventType_of_Some: "EventType_of s = Some m \<Longrightarrow> EventType_value m = s"
  by (auto simp: EventType_of_def EventType_members_def split: if_splits)

lemma event_type_field:
  assumes "errors_of (required ''event_type'' x
            (\<lambda>v. and_then (enum_member EventType_of v) (\<lambda>m. Inr (Plain (EventType_value m))))) = []"
  shows "\<exists>s. x = Value s \<and> required ''event_type'' x
            (\<lambda>v. and_then (enum_member EventType_of v) (\<lambda>m. Inr (Plain (EventType_value m)))) = Inr (Plain s)"
  using assms
  by (auto simp: required_def errors_of_def and_then_def enum_member_def
      split: raw.splits sum.splits option.splits dest: EventType_of_Some)

lemma if_errors_Inl: "(if E = [] then Inr R else Inl E) = Inl es \<Longrightarrow> es \<noteq> []"
  by (auto split: if_splits)

lemma PlayEvent_validate_Inl: "PlayEvent_validate p = Inl es \<Longrightarrow> es \<noteq> []"
  unfolding PlayEvent_validate_def Let_def by (rule if_errors_Inl)

lemma under_Nil: "under k es = [] \<longleftrightarrow> es = []"
  by (simp add: under_def)

text \<open>
  Claim C6. Take a raw record that validation accepts when it carries some PlayDetail
  (an otherwise-valid record) and remove the PlayDetail. If its event kind is \<^verbatim>\<open>play\<close>,
  validation rejects it with the single error of the root validator, "Play events must
  include play_event data"; for every other kind validation accepts it, with no play
  detail in the event. So a missing PlayDetail is rejected exactly for kind \<^verbatim>\<open>play\<close>.
\<close>

theorem play_requires_play_event:
  assumes "MusicEvent_validate e (r\<lparr>raw_MusicEvent.play_event := Value p\<rparr>) = Inr ev"
  shows "MusicEvent_validate e (r\<lparr>raw_MusicEvent.play_event := Absent\<rparr>) =
     (if raw_MusicEvent.event_type r = Value ''play''
      then Inl [([Key ''__root__''], ValueError ''Play events must include play_event data'')]
      else Inr (ev\<lparr>MusicEvent.play_event := None\<rparr>))"
proof -
  let ?ft = "required ''event_type'' (raw_MusicEvent.event_type r)
            (\<lambda>v. and_then (enum_member EventType_of v) (\<lambda>m. Inr (Plain (EventType_value m))))"
  from assms have et: "errors_of ?ft = []"
    and pe: "errors_of (nested_optional ''play_event'' (Value p) PlayEvent_validate) = []"
    by (simp_all add: MusicEvent_validate_def Let_def split: if_splits)
  from event_type_field [OF et] obtain s where s: "raw_MusicEvent.event_type r = Value s"
    and ft: "?ft = Inr (Plain s)" by blast
  from ft s have ft': "required ''event_type'' (Value s)
            (\<lambda>v. and_then (enum_member EventType_of v) (\<lambda>m. Inr (Plain (EventType_value m))))
            = Inr (Plain s)" by simp
  from pe obtain x where x: "PlayEvent_validate p = Inr x"
    by (cases "PlayEvent_validate p")
       (auto simp: nested_optional_def errors_of_def under_Nil dest: PlayEvent_validate_Inl)
  from assms show ?thesis
    by (auto simp add: MusicEvent_validate_def Let_def ft' s x nested_optional_def
        errors_of_def [of "Inr x" for x] value_of_def [of "Inr x" for x]
        validate_event_consistency_def eq_member_def
        split: if_splits)
qed


theorem play_requires_play_event_witness:
  "MusicEvent_validate sample_env
      (sample_raw_event ''play'' (Value 354000) (Value (sample_raw_play_event 354000)))
     = Inr (sample_event sample_env (Plain ''play'') (Some 354000) (Some (sample_play_event 354000)))
   \<and> MusicEvent_validate sample_env (sample_raw_event ''play'' (Value 354000) Absent)
     = Inl [([Key ''__root__''], ValueError ''Play events must include play_event data'')]
   \<and> MusicEvent_validate sample_env (sample_raw_event ''skip'' (Value 354000) Absent)
     = Inr (sample_event sample_env (Plain ''skip'') (Some 354000) None)"
proof -
  have upd: "(sample_raw_event k d x)\<lparr>raw_MusicEvent.play_event := y\<rparr> = sample_raw_event k d y"
    for k d x y by (simp add: sample_raw_event_def)
  have upd': "(sample_event e k d x)\<lparr>MusicEvent.play_event := y\<rparr> = sample_event e k d y"
    for e k d x y by (simp add: sample_event_def)
  have p: "MusicEvent_validate sample_env
      (sample_raw_event ''play'' (Value 354000) (Value (sample_raw_play_event 354000)))
     = Inr (sample_event sample_env (Plain ''play'') (Some 354000) (Some (sample_play_event 354000)))"
    using validate_sample_event [of 354000 354000 sample_env PLAY] by simp
  have s: "MusicEvent_validate sample_env
      (sample_raw_event ''skip'' (Value 354000) (Value (sample_raw_play_event 354000)))
     = Inr (sample_event sample_env (Plain ''skip'') (Some 354000) (Some (sample_play_event 354000)))"
    using validate_sample_event [of 354000 354000 sample_env SKIP] by simp
  have et: "raw_MusicEvent.event_type (sample_raw_event k d x) = Value k" for k d x
    by (simp add: sample_raw_event_def)
  show ?thesis
    using play_requires_play_event [where e = sample_env
        and r = "sample_raw_event ''play'' (Value 354000) Absent"
        and p = "sample_raw_play_event 354000"
        and ev = "sample_event sample_env (Plain ''play'') (Some 354000) (Some (sample_play_event 354000))"]
      play_requires_play_event [where e = sample_env
        and r = "sample_raw_event ''skip'' (Value 354000) Absent"
        and p = "sample_raw_play_event 354000"
        and ev = "sample_event sample_env (Plain ''skip'') (Some 354000) (Some (sample_play_event 354000))"]
    by (simp add: upd upd' p s et)
qed

subsection \<open>Validation and the generated fields\<close>

lemma errors_of_simps: "errors_of (Inr x) = []" "errors_of (Inl es) = es"
  by (simp_all add: errors_of_def)

text \<open>
  Claim C2, as stated: two runs of validation on the same raw record give the same
  MusicEvent, also when the record omits the event identifier. This fails: the identifier
  comes from \<^verbatim>\<open>uuid4()\<close> and the processing timestamp from \<^verbatim>\<open>datetime.utcnow()\<close>, so two
  runs whose readings differ give different events.
\<close>

theorem validate_not_deterministic_counterexample:
  "MusicEvent_validate sample_env
      (sample_raw_event ''play'' (Value 354000) (Value (sample_raw_play_event 354000)))
   \<noteq> MusicEvent_validate sample_env'
      (sample_raw_event ''play'' (Value 354000) (Value (sample_raw_play_event 354000)))"
  using validate_sample_event [of 354000 354000 sample_env PLAY]
    validate_sample_event [of 354000 354000 sample_env' PLAY]
  by (simp add: sample_event_def sample_env_def sample_env'_def)

text \<open>
  Claim C2, amended. Validation is a function of the raw record and of the readings of
  \<^verbatim>\<open>uuid4()\<close> and \<^verbatim>\<open>datetime.utcnow()\<close>: two runs on the same record fail with the same
  errors or both succeed, and the second event is the first one with \<^verbatim>\<open>event_id\<close>,
  \<^verbatim>\<open>timestamp\<close> and \<^verbatim>\<open>processing_timestamp\<close> replaced by the second run's readings where
  the record omits them; every other field, and each of these three when the record supplies
  it, is equal.
\<close>

theorem validate_deterministic_up_to_generated_fields:
  "MusicEvent_validate e2 r =
     map_sum (\<lambda>es. es)
       (\<lambda>ev. ev\<lparr> MusicEvent.event_id :=
                    (if raw_MusicEvent.event_id r = Absent then uuid4 e2 else MusicEvent.event_id ev),
                 MusicEvent.timestamp :=
                    (if raw_MusicEvent.timestamp r = Absent then utcnow_timestamp e2
                     else MusicEvent.timestamp ev),
                 MusicEvent.processing_timestamp :=
                    (if raw_MusicEvent.processing_timestamp r = Absent then utcnow_processing e2
                     else MusicEvent.processing_timestamp ev) \<rparr>)
       (MusicEvent_validate e1 r)"
  by (cases "raw_MusicEvent.event_id r"; cases "raw_MusicEvent.timestamp r";
      cases "raw_MusicEvent.processing_timestamp r")
     (simp_all add: MusicEvent_validate_def Let_def defaulted_def accept_def errors_of_simps)

theorem validate_deterministic_up_to_generated_fields_witness:
  "MusicEvent_validate sample_env'
      (sample_raw_event ''play'' (Value 354000) (Value (sample_raw_play_event 354000)))
   = Inr ((sample_event sample_env (Plain ''play'') (Some 354000) (Some (sample_play_event 354000)))
       \<lparr> MusicEvent.event_id := uuid4 sample_env',
         MusicEvent.processing_timestamp := utcnow_processing sample_env' \<rparr>)"
  using validate_deterministic_up_to_generated_fields [where ?e2.0 = sample_env' and ?e1.0 = sample_env
      and r = "sample_raw_event ''play'' (Value 354000) (Value (sample_raw_play_event 354000))"]
    validate_sample_event [of 354000 354000 sample_env PLAY]
  by (simp add: sample_raw_event_def sample_event_def)


subsection \<open>Failures of validation in \<^verbatim>\<open>ParseMusicEvent.process\<close>\<close>

lemma MusicEvent_validate_Inl: "MusicEvent_validate e r = Inl es \<Longrightarrow> es \<noteq> []"
  unfolding MusicEvent_validate_def Let_def by (rule if_errors_Inl)

text \<open>
  Claim C5, as stated: on a raw input that fails validation the caller receives a tagged
  failure value with the field path and the reason. This fails: the constructor raises
  the \<^verbatim>\<open>ValidationError\<close>, and \<^verbatim>\<open>process\<close> catches it and yields nothing, so the caller
  receives no element for the record.
\<close>

theorem validation_failure_returns_no_value_counterexample:
  "MusicEvent_validate sample_env (sample_raw_event ''play'' (Value 354000) Absent)
     = Inl [([Key ''__root__''], ValueError ''Play events must include play_event data'')]
   \<and> fst (ParseMusicEvent_process \<lparr> success_counter = 0, error_counter = 0, log = [] \<rparr> sample_env
          (Object (sample_raw_event ''play'' (Value 354000) Absent))) = []"
proof -
  have v: "MusicEvent_validate sample_env (sample_raw_event ''play'' (Value 354000) Absent)
     = Inl [([Key ''__root__''], ValueError ''Play events must include play_event data'')]"
    by (simp add: MusicEvent_validate_def sample_raw_event_def field_defs
      validate_sample_artist validate_sample_track validate_sample_user_interaction
      validate_sample_streaming_event EventType_of_def EventType_members_def
      validate_event_consistency_def eq_member_def sample_track_def sample_artist_def)
  then show ?thesis
    by (simp add: ParseMusicEvent_process_def parse_def caught_first_def)
qed

text \<open>
  Claim C5, amended. For every raw record on which validation fails, the
  \<^verbatim>\<open>ValidationError\<close> carries at least one error, each with its field path and reason;
  \<^verbatim>\<open>process\<close> propagates no exception, yields no element, adds one to the error counter
  and logs the error with its field paths and reasons. The failure is logged and the record
  dropped, not returned as a value.
\<close>

theorem validation_failure_is_logged_and_dropped:
  assumes "MusicEvent_validate e r = Inl es"
  shows "es \<noteq> []
    \<and> ParseMusicEvent_process st e (Object r) =
        ([], st\<lparr> error_counter := error_counter st + 1,
                   log := log st @ [FailedToParse (ValidationError es)] \<rparr>)"
  using assms MusicEvent_validate_Inl [OF assms]
  by (simp add: ParseMusicEvent_process_def parse_def caught_first_def)

theorem validation_failure_is_logged_and_dropped_witness:
  "ParseMusicEvent_process \<lparr> success_counter = 0, error_counter = 0, log = [] \<rparr> sample_env
      (Object (sample_raw_event ''plays'' (Value 354000) Mistyped))
   = ([], \<lparr> success_counter = 0, error_counter = 1,
            log = [FailedToParse (ValidationError
                     [([Key ''event_type''], EnumMemberError),
                      ([Key ''play_event''], WrongTypeError)])] \<rparr>)"
proof -
  have v: "MusicEvent_validate sample_env (sample_raw_event ''plays'' (Value 354000) Mistyped)
     = Inl [([Key ''event_type''], EnumMemberError), ([Key ''play_event''], WrongTypeError)]"
    by (simp add: MusicEvent_validate_def sample_raw_event_def field_defs
      validate_sample_artist validate_sample_track validate_sample_user_interaction
      validate_sample_streaming_event EventType_of_def EventType_members_def
      validate_event_consistency_def eq_member_def sample_track_def sample_artist_def)
  show ?thesis
    using validation_failure_is_logged_and_dropped [OF v,
        of "\<lparr> success_counter = 0, error_counter = 0, log = [] \<rparr>"]
    by simp
qed


subsection \<open>Feature derivation: the engagement score\<close>

lemma and_then3_Inr:
  "and_then x (\<lambda>a. and_then y (\<lambda>b. and_then z (\<lambda>c. Inr (g a b c)))) = Inr s
   \<Longrightarrow> \<exists>a b c. x = Inr a \<and> y = Inr b \<and> z = Inr c \<and> s = g a b c"
  by (auto simp: and_then_def split: sum.splits)

lemma and_then2_Inr:
  "and_then x (\<lambda>a. and_then y (\<lambda>b. Inr (g a b))) = Inr s
   \<Longrightarrow> \<exists>a b. x = Inr a \<and> y = Inr b \<and> s = g a b"
  by (auto simp: and_then_def split: sum.splits)

lemma calculate_engagement_score_range:
  assumes "calculate_engagement_score event = Inr s"
  shows "0 \<le> s \<and> s \<le> 1"
proof -
  from and_then3_Inr [OF assms [unfolded calculate_engagement_score_def Let_def]]
  obtain x :: real where "s = max (0 / 10) (min (10 / 10) x)"
    by blast
  then show ?thesis by simp
qed

lemma calculate_derived_fields_Inr:
  assumes "calculate_derived_fields event = Inr d"
  shows "calculate_engagement_score event = Inr (derived_fields.engagement_score d)"
    and "derived_fields.platform_category d =
          categorize_platform (Platform_value (StreamingEvent.platform (MusicEvent.streaming_event event)))"
proof -
  from and_then2_Inr [OF assms [unfolded calculate_derived_fields_def Let_def]]
  have "\<exists>a b. calculate_engagement_score event = Inr b
      \<and> derived_fields.engagement_score d = b
      \<and> derived_fields.platform_category d =
          categorize_platform (Platform_value (StreamingEvent.platform (MusicEvent.streaming_event event)))"
    by auto
  then show "calculate_engagement_score event = Inr (derived_fields.engagement_score d)"
    and "derived_fields.platform_category d =
          categorize_platform (Platform_value (StreamingEvent.platform (MusicEvent.streaming_event event)))"
    by auto
qed

lemma weekday_sample: "weekday sample_datetime = 0"
  by (simp add: weekday_def toordinal_def days_before_year_def days_before_month_def is_leap_def
      sample_datetime_def)

lemma sample_datetime_fields:
  "datetime.hour sample_datetime = 10" "datetime.month sample_datetime = 1"
  "datetime.year sample_datetime = 2024"
  by (simp_all add: sample_datetime_def)

lemma derived_fields_full_play:
  "calculate_derived_fields
     (sample_event sample_env (Member PLAY) (Some 354000) (Some (sample_play_event 354000)))
   = Inr \<lparr> hour_of_day = 10, day_of_week = 0, is_weekend = False, month = 1, year = 2024,
           track_duration_seconds = Some 354, is_long_track = Some True,
           is_short_track = Some False, play_completion_ratio = Some 1,
           is_full_play = Some True, is_skip = Some False, engagement_score = 0.8,
           platform_category = ''premium'' \<rparr>"
  by (simp add: calculate_derived_fields_def calculate_engagement_score_def Let_def and_then_def
      truthy_def truediv_def value_attr_def categorize_platform_def weekday_sample
      sample_datetime_fields
      sample_event_def sample_track_def sample_play_event_def sample_streaming_event_def)

text \<open>
  Claim C7. For every record of derived fields that the feature deriver returns, the
  engagement score lies in the closed interval from 0 to 1.
\<close>

theorem engagement_score_in_unit_interval:
  assumes "calculate_derived_fields event = Inr d"
  shows "0 \<le> derived_fields.engagement_score d \<and> derived_fields.engagement_score d \<le> 1"
  using calculate_engagement_score_range [OF calculate_derived_fields_Inr(1) [OF assms]] .

theorem engagement_score_in_unit_interval_witness:
  "calculate_derived_fields
     (sample_event sample_env (Member PLAY) (Some 354000) (Some (sample_play_event 354000)))
   = Inr \<lparr> hour_of_day = 10, day_of_week = 0, is_weekend = False, month = 1, year = 2024,
           track_duration_seconds = Some 354, is_long_track = Some True,
           is_short_track = Some False, play_completion_ratio = Some 1,
           is_full_play = Some True, is_skip = Some False, engagement_score = 0.8,
           platform_category = ''premium'' \<rparr>
   \<and> (0::real) \<le> 0.8 \<and> (0.8::real) \<le> 1"
  using engagement_score_in_unit_interval [OF derived_fields_full_play]
  by (simp add: derived_fields_full_play)

subsection \<open>Feature derivation on validated events\<close>

lemma validated_event_type_plain:
  assumes "MusicEvent_validate e r = Inr ev"
  shows "\<exists>s. MusicEvent.event_type ev = Plain s"
proof -
  let ?ft = "required ''event_type'' (raw_MusicEvent.event_type r)
            (\<lambda>v. and_then (enum_member EventType_of v) (\<lambda>m. Inr (Plain (EventType_value m))))"
  from assms have et: "errors_of ?ft = []" and v: "MusicEvent.event_type ev = projr ?ft"
    by (auto simp: MusicEvent_validate_def Let_def split: if_splits)
  from event_type_field [OF et] v show ?thesis by auto
qed

lemma guarded_truediv:
  "truthy d \<Longrightarrow> truediv a (the d) = Inr (real_of_int a / real_of_int (the d))"
  by (cases d) (simp_all add: truthy_def truediv_def)

lemma engagement_score_of_plain:
  assumes "MusicEvent.event_type event = Plain s"
  shows "calculate_engagement_score event = Inl AttributeError"
  using assms
  by (simp add: calculate_engagement_score_def Let_def guarded_truediv and_then_def value_attr_def)

lemma derived_fields_of_plain:
  assumes "MusicEvent.event_type event = Plain s"
  shows "calculate_derived_fields event = Inl AttributeError"
  using assms
  by (simp add: calculate_derived_fields_def Let_def guarded_truediv and_then_def
      engagement_score_of_plain)

text \<open>
  Claim C9 says that derivation is total on every validated input. The code at every
  event that validation builds: \<^verbatim>\<open>use_enum_values\<close> makes \<^verbatim>\<open>event_type\<close> a plain string, and
  \<^verbatim>\<open>_calculate_engagement_score\<close> reads \<^verbatim>\<open>event.event_type.value\<close>, so
  \<^verbatim>\<open>_calculate_derived_fields\<close> raises \<^verbatim>\<open>AttributeError\<close> and returns no derived fields.
\<close>

theorem derived_fields_raise_on_validated_event:
  assumes "MusicEvent_validate e r = Inr ev"
  shows "calculate_derived_fields ev = Inl AttributeError"
  using validated_event_type_plain [OF assms] derived_fields_of_plain by blast

theorem derived_fields_raise_on_validated_event_witness:
  "MusicEvent_validate sample_env
      (sample_raw_event ''play'' (Value 0) (Value (sample_raw_play_event 1000)))
     = Inr (sample_event sample_env (Plain ''play'') (Some 0) (Some (sample_play_event 1000)))
   \<and> calculate_derived_fields
        (sample_event sample_env (Plain ''play'') (Some 0) (Some (sample_play_event 1000)))
     = Inl AttributeError"
proof -
  have v: "MusicEvent_validate sample_env
      (sample_raw_event ''play'' (Value 0) (Value (sample_raw_play_event 1000)))
     = Inr (sample_event sample_env (Plain ''play'') (Some 0) (Some (sample_play_event 1000)))"
    using validate_sample_event [of 0 1000 sample_env PLAY] by simp
  from derived_fields_raise_on_validated_event [OF v] v show ?thesis by simp
qed

text \<open>
  The rest of the claim holds: no division by zero happens on any event, and on an event
  whose \<^verbatim>\<open>event_type\<close> holds the enumeration member derivation returns; with a track
  duration of 0 it then sets none of the duration and completion fields.
\<close>

lemma engagement_score_of_member:
  assumes "MusicEvent.event_type event = Member m"
  shows "\<exists>s. calculate_engagement_score event = Inr s"
  using assms
  by (simp add: calculate_engagement_score_def Let_def guarded_truediv and_then_def value_attr_def)

lemma derived_fields_never_divide_by_zero:
  "calculate_derived_fields event \<noteq> Inl ZeroDivisionError"
proof (cases "MusicEvent.event_type event")
  case (Member m)
  from engagement_score_of_member [OF this] obtain s
    where "calculate_engagement_score event = Inr s" ..
  then show ?thesis
    by (simp add: calculate_derived_fields_def Let_def guarded_truediv and_then_def)
next
  case (Plain s)
  then show ?thesis by (simp add: derived_fields_of_plain)
qed

lemma derived_fields_zero_duration:
  assumes "MusicEvent.event_type event = Member m"
    and "Track.duration_ms (MusicEvent.track event) = Some 0"
  shows "\<exists>d. calculate_derived_fields event = Inr d
    \<and> track_duration_seconds d = None \<and> is_long_track d = None \<and> is_short_track d = None
    \<and> play_completion_ratio d = None \<and> is_full_play d = None \<and> is_skip d = None"
proof -
  from engagement_score_of_member [OF assms(1)] obtain s
    where "calculate_engagement_score event = Inr s" ..
  with assms(2) show ?thesis
    by (simp add: calculate_derived_fields_def Let_def truthy_def and_then_def)
qed

subsection \<open>Feature derivation: the platform category\<close>

lemma categorize_platform_members:
  "categorize_platform (Platform_value p) =
     (if p \<in> {SPOTIFY, APPLE_MUSIC, TIDAL} then ''premium''
      else if p \<in> {YOUTUBE_MUSIC, SOUNDCLOUD, PANDORA} then ''ad_supported''
      else ''other'')"
  by (cases p) (simp_all add: categorize_platform_def)

lemma Platform_of_value: "Platform_of (Platform_value p) = Some p"
  by (cases p) (simp_all add: Platform_of_def Platform_members_def)

lemma validate_sample_streaming_event_on:
  "StreamingEvent_validate (sample_raw_streaming_event (Platform_value p))
     = Inr (sample_streaming_event p)"
  by (simp add: StreamingEvent_validate_def sample_raw_streaming_event_def
      sample_streaming_event_def field_defs Platform_of_value)

lemma validate_sample_event_on:
  "MusicEvent_validate e (sample_raw_event_on (Platform_value p)) = Inr (sample_event_on e p)"
  by (simp add: MusicEvent_validate_def sample_raw_event_on_def sample_event_on_def
      sample_raw_event_def sample_event_def field_defs
      validate_sample_artist validate_sample_track validate_sample_user_interaction
      validate_sample_play_event validate_sample_streaming_event_on EventType_of_def
      EventType_members_def validate_event_consistency_def eq_member_def sample_track_def
      sample_artist_def)

text \<open>
  Claim C8 says which platform category is derived for every validated event. The code at
  the validated play events on spotify and on soundcloud: \<^verbatim>\<open>_calculate_derived_fields\<close>
  raises \<^verbatim>\<open>AttributeError\<close> in \<^verbatim>\<open>_calculate_engagement_score\<close>, before it reaches the
  platform category, so no category is derived; \<^verbatim>\<open>_categorize_platform\<close> on the platform
  of these events gives \<^verbatim>\<open>premium\<close> and \<^verbatim>\<open>ad_supported\<close>.
\<close>

theorem platform_category_not_derived_on_validated_events:
  "MusicEvent_validate sample_env (sample_raw_event_on ''spotify'')
     = Inr (sample_event_on sample_env SPOTIFY)
   \<and> calculate_derived_fields (sample_event_on sample_env SPOTIFY) = Inl AttributeError
   \<and> categorize_platform (Platform_value (StreamingEvent.platform
         (MusicEvent.streaming_event (sample_event_on sample_env SPOTIFY)))) = ''premium''
   \<and> MusicEvent_validate sample_env (sample_raw_event_on ''soundcloud'')
     = Inr (sample_event_on sample_env SOUNDCLOUD)
   \<and> calculate_derived_fields (sample_event_on sample_env SOUNDCLOUD) = Inl AttributeError
   \<and> categorize_platform (Platform_value (StreamingEvent.platform
         (MusicEvent.streaming_event (sample_event_on sample_env SOUNDCLOUD)))) = ''ad_supported''"
proof -
  have v: "MusicEvent_validate sample_env (sample_raw_event_on ''spotify'')
     = Inr (sample_event_on sample_env SPOTIFY)"
    "MusicEvent_validate sample_env (sample_raw_event_on ''soundcloud'')
     = Inr (sample_event_on sample_env SOUNDCLOUD)"
    using validate_sample_event_on [of sample_env SPOTIFY]
      validate_sample_event_on [of sample_env SOUNDCLOUD] by simp_all
  have t: "MusicEvent.event_type (sample_event_on sample_env p) = Plain ''play''" for p
    by (simp add: sample_event_on_def sample_event_def)
  have d: "calculate_derived_fields (sample_event_on sample_env p) = Inl AttributeError" for p
    by (rule derived_fields_of_plain [OF t])
  have c: "categorize_platform (Platform_value (StreamingEvent.platform
         (MusicEvent.streaming_event (sample_event_on sample_env SPOTIFY)))) = ''premium''"
    "categorize_platform (Platform_value (StreamingEvent.platform
         (MusicEvent.streaming_event (sample_event_on sample_env SOUNDCLOUD)))) = ''ad_supported''"
    by (simp_all add: sample_event_on_def sample_streaming_event_def categorize_platform_def)
  show ?thesis
    by (simp only: v d c simp_thms)
qed

text \<open>
  What holds of the platform category: on an event holding the enumeration member the
  derived fields carry the category of the event's platform, and two elements of one window
  on spotify and on soundcloud, grouped by platform, give two rows, each with count 1.
\<close>

lemma derived_platform_category:
  assumes "calculate_derived_fields event = Inr d"
  shows "derived_fields.platform_category d =
      categorize_platform (Platform_value (StreamingEvent.platform (MusicEvent.streaming_event event)))"
  using assms by (rule calculate_derived_fields_Inr(2))

lemma platform_metrics_two_platforms:
  assumes "analytics_element.platform a = Some ''spotify''"
    and "analytics_element.platform b = Some ''soundcloud''"
  shows "image_mset (\<lambda>row. (platform_metrics_row.platform row, platform_metrics_row.count row))
           (platform_metrics now [a, b])
         = {#(''spotify'', 1), (''soundcloud'', 1)#}"
  using assms by (simp add: platform_metrics_def GroupByKey_def)

lemma platform_metrics_sample:
  "platform_metrics (\<lambda>k. ''2024-01-15T10:35:00'') sample_elements
     = {#\<lparr> platform_metrics_row.platform = ''spotify'', count = 1, premium_ratio = 1,
             window_start = ''2024-01-15T10:35:00'' \<rparr>,
         \<lparr> platform_metrics_row.platform = ''soundcloud'', count = 1, premium_ratio = 0,
             window_start = ''2024-01-15T10:35:00'' \<rparr>#}"
  by (simp add: platform_metrics_def sample_elements_def GroupByKey_def)

subsection \<open>The engagement score against the formula of the specification\<close>

text \<open>
  Claim C1 says that the engagement score is the formula of the specification with the
  completion ratio clamped to 1. The code at a skip event with 2000 ms played of a 1000 ms
  track: on the validated event (\<^verbatim>\<open>event_type\<close> a plain string) it raises
  \<^verbatim>\<open>AttributeError\<close>; on the same event holding the enumeration member it adds the
  unclamped ratio, 0.5 + 2 * 0.3 - 0.2 = 0.9, where the formula gives
  0.5 + 1 * 0.3 - 0.2 = 0.6.
\<close>

theorem engagement_score_overplayed_skip:
  "MusicEvent_validate sample_env
      (sample_raw_event ''skip'' (Value 1000) (Value (sample_raw_play_event 2000)))
     = Inr (sample_event sample_env (Plain ''skip'') (Some 1000) (Some (sample_play_event 2000)))
   \<and> calculate_engagement_score
        (sample_event sample_env (Plain ''skip'') (Some 1000) (Some (sample_play_event 2000)))
     = Inl AttributeError
   \<and> calculate_engagement_score
        (sample_event sample_env (Member SKIP) (Some 1000) (Some (sample_play_event 2000)))
     = Inr 0.9
   \<and> spec_engagement_score
        (sample_event sample_env (Plain ''skip'') (Some 1000) (Some (sample_play_event 2000)))
     = 0.6
   \<and> spec_engagement_score
        (sample_event sample_env (Member SKIP) (Some 1000) (Some (sample_play_event 2000)))
     = 0.6"
proof -
  have v: "MusicEvent_validate sample_env
      (sample_raw_event ''skip'' (Value 1000) (Value (sample_raw_play_event 2000)))
     = Inr (sample_event sample_env (Plain ''skip'') (Some 1000) (Some (sample_play_event 2000)))"
    using validate_sample_event [of 1000 2000 sample_env SKIP] by simp
  have a: "calculate_engagement_score
        (sample_event sample_env (Plain ''skip'') (Some 1000) (Some (sample_play_event 2000)))
     = Inl AttributeError"
    by (rule engagement_score_of_plain) (simp add: sample_event_def)
  have b: "calculate_engagement_score
        (sample_event sample_env (Member SKIP) (Some 1000) (Some (sample_play_event 2000)))
     = Inr 0.9"
    by (simp add: calculate_engagement_score_def Let_def and_then_def truthy_def truediv_def
        value_attr_def sample_event_def sample_track_def sample_play_event_def)
  have c: "spec_engagement_score
        (sample_event sample_env k (Some 1000) (Some (sample_play_event 2000))) = 0.6"
    if "kind_of k = ''skip''" for k
    using that
    by (simp add: spec_engagement_score_def spec_completion_ratio_def Let_def
        sample_event_def sample_track_def sample_play_event_def)
  from v a b c [of "Plain ''skip''"] c [of "Member SKIP"] show ?thesis
    by (simp add: kind_of_def)
qed

text \<open>
  The two defects apart, the code computes the formula: on an event holding the enumeration
  member whose played duration does not exceed a positive track duration, the engagement
  score is the formula of the specification.
\<close>

lemma engagement_score_matches_formula:
  assumes m: "MusicEvent.event_type event = Member m"
    and le: "\<And>p d. MusicEvent.play_event event = Some p \<Longrightarrow>
               Track.duration_ms (MusicEvent.track event) = Some d \<Longrightarrow>
               0 < d \<and> PlayEvent.played_duration_ms p \<le> d"
  shows "calculate_engagement_score event = Inr (spec_engagement_score event)"
proof (cases "MusicEvent.play_event event")
  case None
  then show ?thesis
    by (simp add: calculate_engagement_score_def spec_engagement_score_def
        spec_completion_ratio_def Let_def and_then_def value_attr_def kind_of_def m)
next
  case (Some p)
  show ?thesis
  proof (cases "Track.duration_ms (MusicEvent.track event)")
    case None
    with Some show ?thesis
      by (simp add: calculate_engagement_score_def spec_engagement_score_def
          spec_completion_ratio_def Let_def and_then_def value_attr_def kind_of_def m truthy_def)
  next
    case (Some d)
    from le [OF \<open>MusicEvent.play_event event = Some p\<close> Some]
    have d: "0 < d" and pd: "PlayEvent.played_duration_ms p \<le> d" by simp_all
    then have r: "real_of_int (PlayEvent.played_duration_ms p) / real_of_int d \<le> 1" by simp
    from d Some \<open>MusicEvent.play_event event = Some p\<close> r show ?thesis
      by (simp add: calculate_engagement_score_def spec_engagement_score_def
          spec_completion_ratio_def Let_def and_then_def value_attr_def kind_of_def m truthy_def
          truediv_def min_absorb1)
  qed
qed

subsection \<open>Window aggregation\<close>









lemma length_perm: "mset xs = mset ys \<Longrightarrow> length xs = length ys"
  by (rule mset_eq_length)
















text \<open>
  Claim C3, as stated: aggregating the same non-empty input twice gives byte-identical
  output, timestamp metadata included. This fails: \<^verbatim>\<open>aggregation_timestamp\<close> is the clock
  reading of each run.
\<close>

theorem aggregation_not_byte_identical_counterexample:
  "AggregateEventMetrics_process ''2024-01-15T10:31:00.000001'' sample_rows
   \<noteq> AggregateEventMetrics_process ''2024-01-15T10:31:00.000002'' sample_rows"
  by (simp add: AggregateEventMetrics_process_def sample_rows_def Let_def)

text \<open>
  Claim C3, amended. For every non-empty list of derived records, two runs of the
  aggregation each yield exactly one aggregate, and the two aggregates are equal in every
  field except \<^verbatim>\<open>aggregation_timestamp\<close>, which is the clock reading of each run.
\<close>

theorem aggregation_reproducible_up_to_timestamp:
  assumes "events \<noteq> []"
  shows "\<exists>a. AggregateEventMetrics_process now1 events = [a]
    \<and> aggregation_timestamp a = now1
    \<and> AggregateEventMetrics_process now2 events = [a\<lparr> aggregation_timestamp := now2 \<rparr>]"
  using assms by (simp add: AggregateEventMetrics_process_def Let_def)

theorem aggregation_reproducible_up_to_timestamp_witness:
  "sample_rows \<noteq> []
   \<and> (\<exists>a. AggregateEventMetrics_process ''2024-01-15T10:31:00.000001'' sample_rows = [a]
        \<and> aggregation_timestamp a = ''2024-01-15T10:31:00.000001''
        \<and> AggregateEventMetrics_process ''2024-01-15T10:31:00.000002'' sample_rows
            = [a\<lparr> aggregation_timestamp := ''2024-01-15T10:31:00.000002'' \<rparr>])"
proof -
  have ne: "sample_rows \<noteq> []" by (simp add: sample_rows_def)
  from aggregation_reproducible_up_to_timestamp [OF ne] ne show ?thesis by blast
qed




end
